theory Spec2Isabelle
  imports Main
begin

section \<open>Go primitives used by the client\<close>

text \<open>
  A call of a Go function either returns a value or panics (a nil dereference is a
  panic). Every dereference of a pointer that may be nil is a branch of the model.
\<close>

datatype 'a outcome = Panics | Returns 'a

text \<open>
  \<open>time.Duration\<close> is a signed 64-bit count of nanoseconds: arithmetic on it wraps,
  and \<open>Time.Sub\<close> (behind \<open>time.Until\<close>) saturates at the least and greatest
  duration. Instants are unbounded integers, nanoseconds since the Unix epoch.
\<close>

definition wrap64 :: "int \<Rightarrow> int" where
  "wrap64 x = (x + 2 ^ 63) mod 2 ^ 64 - 2 ^ 63"

definition sat64 :: "int \<Rightarrow> int" where
  "sat64 x = (if x < - (2 ^ 63) then - (2 ^ 63) else if 2 ^ 63 - 1 < x then 2 ^ 63 - 1 else x)"

definition in_int64 :: "int \<Rightarrow> bool" where
  "in_int64 x = (- (2 ^ 63) \<le> x \<and> x < 2 ^ 63)"

definition Millisecond :: int where "Millisecond = 1000000"
definition Second :: int where "Second = 1000000000"
definition Minute :: int where "Minute = 60 * 1000000000"

definition time_Until :: "int \<Rightarrow> int \<Rightarrow> int" where
  "time_Until t now = sat64 (t - now)"

definition time_Unix :: "int \<Rightarrow> int" where
  "time_Unix sec = sec * Second"

text \<open>
  \<open>strconv.Atoi\<close> and \<open>strconv.ParseInt(s, 10, 64)\<close>: an optional sign, then one or
  more decimal digits, and the value has to fit 64 bits.
\<close>

definition digit_of :: "char \<Rightarrow> nat option" where
  "digit_of c = (let n = (of_char c :: nat) in if 48 \<le> n \<and> n \<le> 57 then Some (n - 48) else None)"

fun digits_value :: "string \<Rightarrow> nat \<Rightarrow> nat option" where
  "digits_value [] acc = Some acc"
| "digits_value (c # cs) acc =
     (case digit_of c of None \<Rightarrow> None | Some d \<Rightarrow> digits_value cs (10 * acc + d))"

definition signed_digits :: "bool \<Rightarrow> string \<Rightarrow> int option" where
  "signed_digits neg ds =
     (if ds = [] then None
      else case digits_value ds 0 of
             None \<Rightarrow> None
           | Some n \<Rightarrow> (let v = (if neg then - int n else int n)
                        in if in_int64 v then Some v else None))"

definition strconv_Atoi :: "string \<Rightarrow> int option" where
  "strconv_Atoi s =
     (case s of
        [] \<Rightarrow> None
      | c # cs \<Rightarrow> if c = CHR ''-'' then signed_digits True cs
                  else if c = CHR ''+'' then signed_digits False cs
                  else signed_digits False s)"

text \<open>\<open>strings.HasPrefix\<close> and \<open>strings.Contains\<close>.\<close>

fun strings_HasPrefix :: "string \<Rightarrow> string \<Rightarrow> bool" where
  "strings_HasPrefix s [] = True"
| "strings_HasPrefix [] (p # ps) = False"
| "strings_HasPrefix (c # cs) (p # ps) = (c = p \<and> strings_HasPrefix cs ps)"

fun strings_Contains :: "string \<Rightarrow> string \<Rightarrow> bool" where
  "strings_Contains [] sub = (sub = [])"
| "strings_Contains (c # cs) sub = (strings_HasPrefix (c # cs) sub \<or> strings_Contains cs sub)"

section \<open>HTTP responses\<close>

text \<open>
  The fields of \<open>http.Response\<close> the client reads. \<open>Header\<close> is looked up with
  \<open>Header.Get\<close>, which gives the empty string for an absent header. \<open>Body\<close> is what
  \<open>io.ReadAll\<close> yields, \<open>None\<close> when the read fails. The response's \<open>Request\<close> is only
  read for log lines and is taken to be attached, as it is on every response the HTTP
  library hands out.
\<close>

record response =
  StatusCode :: int
  Status :: string
  Header :: "string \<rightharpoonup> string"
  Body :: "string option"

definition Header_Get :: "(string \<rightharpoonup> string) \<Rightarrow> string \<Rightarrow> string" where
  "Header_Get h k = (case h k of None \<Rightarrow> [] | Some v \<Rightarrow> v)"

section \<open>Content-type lookup of the Graph handler\<close>

text \<open>
  \<open>configMap\<close> is a Go map from path prefix to an endpoint configuration whose
  \<open>ContentType\<close> is a pointer to a string. \<open>GetContentTypeHeader\<close> ranges over the map
  and returns at the first key that is a prefix of the endpoint. Go leaves the order of
  a range over a map unspecified, so the order of one run is an argument of the model:
  the list of the map's entries as that run's range yields them.
\<close>

record EndpointConfig =
  ContentType :: "string option"

fun GetContentTypeHeader :: "(string \<times> EndpointConfig) list \<Rightarrow> string \<Rightarrow> string" where
  "GetContentTypeHeader [] endpoint = ''application/json''"
| "GetContentTypeHeader ((key, config) # rest) endpoint =
     (if strings_HasPrefix endpoint key
      then (case ContentType config of Some ct \<Rightarrow> ct | None \<Rightarrow> [])
      else GetContentTypeHeader rest endpoint)"

section \<open>Rate-limit header parser\<close>

text \<open>
  \<open>parseRateLimitHeaders\<close> reads the clock through \<open>time.Until\<close>; the instant it reads
  is the argument \<open>now\<close>. \<open>time.Parse(time.RFC1123, _)\<close> belongs to Go's library and is
  an argument too: it gives the parsed instant, or \<open>None\<close> for a parse error.
\<close>

definition skewBuffer :: int where
  "skewBuffer = 5 * Second"

definition retryAfterWait :: "(string \<Rightarrow> int option) \<Rightarrow> response \<Rightarrow> int \<Rightarrow> int option" where
  "retryAfterWait time_Parse_RFC1123 resp now =
     (let retryAfter = Header_Get (Header resp) ''Retry-After'' in
      if retryAfter \<noteq> [] then
        (case strconv_Atoi retryAfter of
           Some waitSeconds \<Rightarrow> Some (wrap64 (waitSeconds * Second))
         | None \<Rightarrow>
             (case time_Parse_RFC1123 retryAfter of
                Some retryAfterDate \<Rightarrow> Some (time_Until retryAfterDate now)
              | None \<Rightarrow> None))
      else None)"

definition rateLimitResetWait :: "response \<Rightarrow> int \<Rightarrow> int option" where
  "rateLimitResetWait resp now =
     (if Header_Get (Header resp) ''X-RateLimit-Remaining'' = ''0'' then
        (let resetTimeStr = Header_Get (Header resp) ''X-RateLimit-Reset'' in
         if resetTimeStr \<noteq> [] then
           (case strconv_Atoi resetTimeStr of
              Some resetTimeEpoch \<Rightarrow>
                Some (wrap64 (time_Until (time_Unix resetTimeEpoch) now + skewBuffer))
            | None \<Rightarrow> None)
         else None)
      else None)"

definition parseRateLimitHeaders :: "(string \<Rightarrow> int option) \<Rightarrow> response \<Rightarrow> int \<Rightarrow> int" where
  "parseRateLimitHeaders time_Parse_RFC1123 resp now =
     (case retryAfterWait time_Parse_RFC1123 resp now of
        Some d \<Rightarrow> d
      | None \<Rightarrow> (case rateLimitResetWait resp now of Some d \<Rightarrow> d | None \<Rightarrow> 0))"

section \<open>Error response decoder\<close>

text \<open>
  \<open>APIError\<close> with the fields of the Go struct; \<open>StatusCode\<close> and \<open>Type\<close> are
  \<open>ErrStatusCode\<close> and \<open>ErrType\<close> here. A value of Go's \<open>interface{}\<close> decoded from
  JSON is only ever asked whether it is a string.
\<close>

datatype json_value = JString string | JNonString

record APIError =
  ErrStatusCode :: int
  ErrType :: string
  Message :: string
  Detail :: string
  Errors :: "(string \<times> json_value) list"
  Raw :: string

text \<open>
  \<open>json.Unmarshal\<close> belongs to Go's library and is an argument of the decoder.
  \<open>into_APIError\<close> is the call \<open>json.Unmarshal(bodyBytes, &apiError)\<close>, whose target is
  the pointer variable \<open>apiError\<close> itself: it ends with no error and the fields stored
  (\<open>Decoded\<close>), with no error and the pointer set to nil, as for the JSON text
  \<open>null\<close> (\<open>DecodedNull\<close>), or with an error and the record as the decoding left it
  (\<open>DecodeError\<close>). \<open>into_map\<close> is the call on a \<open>map[string]interface{}\<close>, \<open>None\<close>
  for an error.
\<close>

datatype unmarshal_result = Decoded APIError | DecodedNull | DecodeError APIError

record json_Unmarshal =
  into_APIError :: "string \<Rightarrow> APIError \<Rightarrow> unmarshal_result"
  into_map :: "string \<Rightarrow> (string \<rightharpoonup> json_value) option"

definition isJSONResponse :: "response \<Rightarrow> bool" where
  "isJSONResponse resp =
     (let contentType = Header_Get (Header resp) ''Content-Type''
      in strings_Contains contentType ''application/json'')"

definition isHTMLResponse :: "response \<Rightarrow> bool" where
  "isHTMLResponse resp =
     (let contentType = Header_Get (Header resp) ''Content-Type''
      in strings_Contains contentType ''text/html'')"

definition updateFromGenericError :: "APIError \<Rightarrow> (string \<rightharpoonup> json_value) \<Rightarrow> APIError" where
  "updateFromGenericError e genericErr =
     (let e1 = (case genericErr ''message'' of Some (JString msg) \<Rightarrow> e\<lparr>Message := msg\<rparr> | _ \<Rightarrow> e)
      in (case genericErr ''detail'' of Some (JString detail) \<Rightarrow> e1\<lparr>Detail := detail\<rparr> | _ \<Rightarrow> e1))"

definition genericErrorFallback :: "json_Unmarshal \<Rightarrow> string \<Rightarrow> APIError \<Rightarrow> APIError outcome" where
  "genericErrorFallback json bodyBytes apiError =
     (case into_map json bodyBytes of
        Some genericErr \<Rightarrow> Returns (updateFromGenericError apiError genericErr)
      | None \<Rightarrow> Returns apiError)"

definition defaultAPIError :: "response \<Rightarrow> APIError" where
  "defaultAPIError resp =
     \<lparr>ErrStatusCode = StatusCode resp, ErrType = ''APIError'', Message = ''An error occurred'',
      Detail = [], Errors = [], Raw = []\<rparr>"

text \<open>
  \<open>handleAPIErrorResponse\<close> takes a pointer to the response: \<open>None\<close> is nil, and the
  first statement reads \<open>resp.StatusCode\<close>. After a decode that set \<open>apiError\<close> to nil
  the next statement reads \<open>apiError.Message\<close>.
\<close>

definition handleAPIErrorResponse :: "json_Unmarshal \<Rightarrow> response option \<Rightarrow> APIError outcome" where
  "handleAPIErrorResponse json resp_ptr =
     (case resp_ptr of
        None \<Rightarrow> Panics
      | Some resp \<Rightarrow>
          (let apiError = defaultAPIError resp in
           case Body resp of
             None \<Rightarrow> Returns apiError
           | Some bodyBytes \<Rightarrow>
               if isJSONResponse resp then
                 (case into_APIError json bodyBytes apiError of
                    Decoded e \<Rightarrow>
                      if Message e \<noteq> [] then Returns e
                      else genericErrorFallback json bodyBytes e
                  | DecodedNull \<Rightarrow> Panics
                  | DecodeError e \<Rightarrow> genericErrorFallback json bodyBytes e)
               else if isHTMLResponse resp then
                 Returns (apiError\<lparr>Raw := bodyBytes, Message := ''HTML error page received''\<rparr>)
               else
                 Returns (apiError\<lparr>Raw := bodyBytes, Message := ''Non-JSON error response received''\<rparr>)))"

text \<open>A decoder for bodies that are not JSON at all: both calls end with an error.\<close>

definition json_rejecting :: json_Unmarshal where
  "json_rejecting = \<lparr>into_APIError = (\<lambda>bodyBytes e. DecodeError e), into_map = (\<lambda>bodyBytes. None)\<rparr>"

section \<open>Client configuration\<close>

text \<open>
  \<open>ClientConfig\<close> with the fields \<open>LoadConfigFromEnv\<close> writes; \<open>config.Auth.ClientID\<close>
  is \<open>Auth_ClientID\<close>, and the fields of \<open>config.ClientOptions\<close> keep their names.
  Durations are nanoseconds.
\<close>

record ClientConfig =
  Auth_ClientID :: string
  Auth_ClientSecret :: string
  Environment_InstanceName :: string
  Environment_OverrideBaseDomain :: string
  Environment_APIType :: string
  LogLevel :: string
  LogOutputFormat :: string
  LogConsoleSeparator :: string
  HideSensitiveData :: bool
  MaxRetryAttempts :: int
  EnableDynamicRateLimiting :: bool
  MaxConcurrentRequests :: int
  TokenRefreshBufferPeriod :: int
  TotalRetryDuration :: int
  CustomTimeout :: int

definition DefaultMaxRetryAttempts :: int where "DefaultMaxRetryAttempts = 3"
definition DefaultMaxConcurrentRequests :: int where "DefaultMaxConcurrentRequests = 5"
definition DefaultTokenBufferPeriod :: int where "DefaultTokenBufferPeriod = 5 * Minute"
definition DefaultTotalRetryDuration :: int where "DefaultTotalRetryDuration = 5 * Minute"
definition DefaultTimeout :: int where "DefaultTimeout = 10 * Second"

text \<open>The zero value \<open>&ClientConfig{}\<close>.\<close>

definition zeroClientConfig :: ClientConfig where
  "zeroClientConfig =
     \<lparr>Auth_ClientID = [], Auth_ClientSecret = [], Environment_InstanceName = [],
      Environment_OverrideBaseDomain = [], Environment_APIType = [], LogLevel = [],
      LogOutputFormat = [], LogConsoleSeparator = [], HideSensitiveData = False,
      MaxRetryAttempts = 0, EnableDynamicRateLimiting = False, MaxConcurrentRequests = 0,
      TokenRefreshBufferPeriod = 0, TotalRetryDuration = 0, CustomTimeout = 0\<rparr>"

text \<open>
  \<open>strconv.ParseBool\<close>, \<open>strconv.FormatBool\<close> and \<open>strconv.Itoa\<close>. The functions
  \<open>Duration.String\<close> and \<open>time.ParseDuration\<close> of Go's library are arguments of the
  loader.
\<close>

definition strconv_ParseBool :: "string \<Rightarrow> bool option" where
  "strconv_ParseBool str =
     (if str \<in> set [''1'', ''t'', ''T'', ''TRUE'', ''true'', ''True''] then Some True
      else if str \<in> set [''0'', ''f'', ''F'', ''FALSE'', ''false'', ''False''] then Some False
      else None)"

definition strconv_FormatBool :: "bool \<Rightarrow> string" where
  "strconv_FormatBool b = (if b then ''true'' else ''false'')"

definition digit_char :: "nat \<Rightarrow> char" where
  "digit_char d = ''0123456789'' ! (d mod 10)"

fun nat_decimal :: "nat \<Rightarrow> string" where
  "nat_decimal n =
     (if n < 10 then [digit_char n] else nat_decimal (n div 10) @ [digit_char (n mod 10)])"

declare nat_decimal.simps [simp del]

definition strconv_Itoa :: "int \<Rightarrow> string" where
  "strconv_Itoa i = (if i < 0 then CHR ''-'' # nat_decimal (nat (- i)) else nat_decimal (nat i))"

record go_time =
  Duration_String :: "int \<Rightarrow> string"
  time_ParseDuration :: "string \<Rightarrow> int option"

definition getEnvOrDefault :: "(string \<rightharpoonup> string) \<Rightarrow> string \<Rightarrow> string \<Rightarrow> string" where
  "getEnvOrDefault env envKey defaultValue =
     (case env envKey of Some v \<Rightarrow> v | None \<Rightarrow> defaultValue)"

definition parseBool :: "string \<Rightarrow> bool" where
  "parseBool v = (case strconv_ParseBool v of None \<Rightarrow> False | Some result \<Rightarrow> result)"

definition parseInt :: "string \<Rightarrow> int \<Rightarrow> int" where
  "parseInt v defaultVal = (case strconv_Atoi v of None \<Rightarrow> defaultVal | Some result \<Rightarrow> result)"

definition parseDuration :: "go_time \<Rightarrow> string \<Rightarrow> int \<Rightarrow> int" where
  "parseDuration T v defaultVal =
     (case time_ParseDuration T v of None \<Rightarrow> defaultVal | Some result \<Rightarrow> result)"

definition missingFields :: "ClientConfig \<Rightarrow> string list" where
  "missingFields config =
     (if Auth_ClientID config = [] then [''Auth.ClientID''] else []) @
     (if Auth_ClientSecret config = [] then [''Auth.ClientSecret''] else []) @
     (if Environment_InstanceName config = [] then [''Environment.InstanceName''] else []) @
     (if Environment_APIType config = [] then [''Environment.APIType''] else []) @
     (if LogLevel config = [] then [''ClientOptions.LogLevel''] else []) @
     (if LogOutputFormat config = [] then [''ClientOptions.LogOutputFormat''] else []) @
     (if LogConsoleSeparator config = [] then [''ClientOptions.LogConsoleSeparator''] else [])"

fun strings_Join :: "string list \<Rightarrow> string \<Rightarrow> string" where
  "strings_Join [] sep = []"
| "strings_Join [x] sep = x"
| "strings_Join (x # y # ys) sep = x @ sep @ strings_Join (y # ys) sep"

definition validateMandatoryConfiguration :: "ClientConfig \<Rightarrow> string option" where
  "validateMandatoryConfiguration config =
     (if 0 < length (missingFields config)
      then Some (''mandatory configuration missing: '' @ strings_Join (missingFields config) '', '')
      else None)"

definition setLoggerDefaultValues :: "ClientConfig \<Rightarrow> ClientConfig" where
  "setLoggerDefaultValues config =
     (if LogConsoleSeparator config = [] then config\<lparr>LogConsoleSeparator := '',''\<rparr> else config)"

definition setClientDefaultValues :: "ClientConfig \<Rightarrow> ClientConfig" where
  "setClientDefaultValues config =
     (let c1 = (if MaxRetryAttempts config < 0
                then config\<lparr>MaxRetryAttempts := DefaultMaxRetryAttempts\<rparr> else config);
          c2 = (if MaxConcurrentRequests c1 \<le> 0
                then c1\<lparr>MaxConcurrentRequests := DefaultMaxConcurrentRequests\<rparr> else c1);
          c3 = (if TokenRefreshBufferPeriod c2 < 0
                then c2\<lparr>TokenRefreshBufferPeriod := DefaultTokenBufferPeriod\<rparr> else c2);
          c4 = (if TotalRetryDuration c3 \<le> 0
                then c3\<lparr>TotalRetryDuration := DefaultTotalRetryDuration\<rparr> else c3);
          c5 = (if TokenRefreshBufferPeriod c4 = 0
                then c4\<lparr>TokenRefreshBufferPeriod := DefaultTokenBufferPeriod\<rparr> else c4);
          c6 = (if TotalRetryDuration c5 = 0
                then c5\<lparr>TotalRetryDuration := DefaultTotalRetryDuration\<rparr> else c5)
      in (if CustomTimeout c6 = 0 then c6\<lparr>CustomTimeout := DefaultTimeout\<rparr> else c6))"

text \<open>
  The assignments of \<open>LoadConfigFromEnv\<close> in the order of the source, each reading only
  the field it writes; \<open>env\<close> is the process environment as \<open>os.LookupEnv\<close> sees it,
  and a nil \<open>config\<close> is \<open>None\<close>.
\<close>

definition applyEnv :: "go_time \<Rightarrow> (string \<rightharpoonup> string) \<Rightarrow> ClientConfig \<Rightarrow> ClientConfig" where
  "applyEnv T env config =
     config\<lparr>
       Auth_ClientID := getEnvOrDefault env ''CLIENT_ID'' (Auth_ClientID config),
       Auth_ClientSecret := getEnvOrDefault env ''CLIENT_SECRET'' (Auth_ClientSecret config),
       Environment_InstanceName :=
         getEnvOrDefault env ''INSTANCE_NAME'' (Environment_InstanceName config),
       Environment_OverrideBaseDomain :=
         getEnvOrDefault env ''OVERRIDE_BASE_DOMAIN'' (Environment_OverrideBaseDomain config),
       Environment_APIType := getEnvOrDefault env ''API_TYPE'' (Environment_APIType config),
       LogLevel := getEnvOrDefault env ''LOG_LEVEL'' (LogLevel config),
       LogOutputFormat := getEnvOrDefault env ''LOG_OUTPUT_FORMAT'' (LogOutputFormat config),
       LogConsoleSeparator :=
         getEnvOrDefault env ''LOG_CONSOLE_SEPARATOR'' (LogConsoleSeparator config),
       HideSensitiveData :=
         parseBool (getEnvOrDefault env ''HIDE_SENSITIVE_DATA''
                      (strconv_FormatBool (HideSensitiveData config))),
       MaxRetryAttempts :=
         parseInt (getEnvOrDefault env ''MAX_RETRY_ATTEMPTS''
                     (strconv_Itoa (MaxRetryAttempts config))) DefaultMaxRetryAttempts,
       EnableDynamicRateLimiting :=
         parseBool (getEnvOrDefault env ''ENABLE_DYNAMIC_RATE_LIMITING''
                      (strconv_FormatBool (EnableDynamicRateLimiting config))),
       MaxConcurrentRequests :=
         parseInt (getEnvOrDefault env ''MAX_CONCURRENT_REQUESTS''
                     (strconv_Itoa (MaxConcurrentRequests config))) DefaultMaxConcurrentRequests,
       TokenRefreshBufferPeriod :=
         parseDuration T (getEnvOrDefault env ''TOKEN_REFRESH_BUFFER_PERIOD''
                            (Duration_String T (TokenRefreshBufferPeriod config)))
           DefaultTokenBufferPeriod,
       TotalRetryDuration :=
         parseDuration T (getEnvOrDefault env ''TOTAL_RETRY_DURATION''
                            (Duration_String T (TotalRetryDuration config)))
           DefaultTotalRetryDuration,
       CustomTimeout :=
         parseDuration T (getEnvOrDefault env ''CUSTOM_TIMEOUT''
                            (Duration_String T (CustomTimeout config)))
           DefaultTimeout\<rparr>"

definition LoadConfigFromEnv ::
    "go_time \<Rightarrow> (string \<rightharpoonup> string) \<Rightarrow> ClientConfig option \<Rightarrow> string + ClientConfig" where
  "LoadConfigFromEnv T env config_ptr =
     (let config = (case config_ptr of None \<Rightarrow> zeroClientConfig | Some c \<Rightarrow> c);
          config1 = applyEnv T env config;
          config2 = setLoggerDefaultValues config1;
          config3 = setClientDefaultValues config2
      in case validateMandatoryConfiguration config3 of
           Some err \<Rightarrow> Inl err
         | None \<Rightarrow> Inr config3)"

text \<open>
  The two library functions at the durations and strings of the examples, and only
  there: the zero duration prints as \<open>0s\<close>, which parses back as zero, \<open>30s\<close> is
  thirty seconds, and \<open>abc\<close> is not a duration. Elsewhere the values are arbitrary,
  and no example depends on them.
\<close>

definition example_time :: go_time where
  "example_time =
     \<lparr>Duration_String = (\<lambda>d. if d = 0 then ''0s'' else ''?''),
      time_ParseDuration = (\<lambda>s. if s = ''0s'' then Some 0
                                 else if s = ''30s'' then Some (30 * Second) else None)\<rparr>"

section \<open>Request executor\<close>

subsection \<open>State, inputs and collaborators\<close>

text \<open>
  What a call can change and what the properties below observe: the clock read by
  \<open>time.Now\<close>, the sends made through \<open>c.do\<close> with the instant each one started, the
  sleeps made through \<open>time.Sleep\<close> with their kind, start and duration, the permits
  acquired and released, the counter \<open>Metrics.TotalRequests\<close>, and the number of calls
  of \<open>EvaluateAndAdjustConcurrency\<close>. The logs list the most recent entry first.
\<close>

datatype sleep_kind = RateLimitWait | BackoffWait

record world =
  now :: int
  sends :: nat
  send_log :: "int list"
  sleep_log :: "(sleep_kind \<times> int \<times> int) list"
  permits_acquired :: nat
  permits_released :: nat
  TotalRequests :: nat
  evaluations :: nat

datatype error = TransportError string | OtherError string | APIErr APIError

datatype send_result = Response response | Failed string

datatype call_result = Returned "response option" "error option" | Panicked

text \<open>
  The inputs of one call: the method, what the collaborators called before the send
  answer (\<open>CheckAndRefreshAuthToken\<close>, \<open>AcquireConcurrencyPermit\<close>, \<open>MarshalRequest\<close>,
  \<open>http.NewRequest\<close>), and what the network does: \<open>script n\<close> is the result of the send
  made when \<open>n\<close> sends have been made before, \<open>latency n\<close> the nanoseconds it takes.
\<close>

record call =
  request_method :: string
  auth :: "bool \<times> error option"
  acquire :: "error option"
  marshal :: "error option"
  new_request :: "error option"
  script :: "nat \<Rightarrow> send_result"
  latency :: "nat \<Rightarrow> nat"

text \<open>
  The functions of the package \<open>status\<close> and \<open>response.HandleAPISuccessResponse\<close>
  are arguments of the model, and so are the functions of Go's library behind the parser
  and the decoder. Those that are handed \<open>resp\<close> where it may be nil take a
  \<open>response option\<close> and may panic. \<open>calculateBackoff\<close> draws a random jitter and
  computes in floating point: the delay it returns for a retry count is an argument too.
\<close>

record deps =
  TranslateStatusCode :: "response option \<Rightarrow> string outcome"
  IsNonRetryableStatusCode :: "response \<Rightarrow> bool"
  IsRateLimitError :: "response option \<Rightarrow> bool outcome"
  IsTransientError :: "response option \<Rightarrow> bool outcome"
  IsRetryableStatusCode :: "int \<Rightarrow> bool"
  CalculateBackoff :: "int \<Rightarrow> int"
  HandleAPISuccessResponse :: "response \<Rightarrow> error option"
  Parse_RFC1123 :: "string \<Rightarrow> int option"
  Unmarshal :: json_Unmarshal

text \<open>
  \<open>ratehandler.ParseRateLimitHeaders\<close> and \<open>response.HandleAPIErrorResponse\<close> are the
  parser and the decoder above, called through their packages. The parser is handed
  \<open>resp\<close> as it is and reads \<open>resp.Header\<close> first; \<open>t\<close> is the instant of the call.
\<close>

definition ParseRateLimitHeaders :: "deps \<Rightarrow> response option \<Rightarrow> int \<Rightarrow> int outcome" where
  "ParseRateLimitHeaders D resp t =
     (case resp of
        None \<Rightarrow> Panics
      | Some x \<Rightarrow> Returns (parseRateLimitHeaders (Parse_RFC1123 D) x t))"

definition HandleAPIErrorResponse :: "deps \<Rightarrow> response option \<Rightarrow> APIError outcome" where
  "HandleAPIErrorResponse D resp = handleAPIErrorResponse (Unmarshal D) resp"

text \<open>
  \<open>c.do\<close>: one send. The clock moves by the send's latency, at least one nanosecond.
  \<open>time.Sleep\<close> returns at once for a duration that is not positive.
\<close>

definition do_send :: "call \<Rightarrow> world \<Rightarrow> world" where
  "do_send C w =
     w\<lparr>now := now w + int (max 1 (latency C (sends w))),
       sends := Suc (sends w),
       send_log := now w # send_log w\<rparr>"

definition time_Sleep :: "sleep_kind \<Rightarrow> int \<Rightarrow> world \<Rightarrow> world" where
  "time_Sleep kind d w =
     w\<lparr>now := now w + max 0 d, sleep_log := (kind, now w, d) # sleep_log w\<rparr>"

definition resp_of :: "send_result \<Rightarrow> response option" where
  "resp_of r = (case r of Response x \<Rightarrow> Some x | Failed e \<Rightarrow> None)"

definition err_of :: "send_result \<Rightarrow> error option" where
  "err_of r = (case r of Response x \<Rightarrow> None | Failed e \<Rightarrow> Some (TransportError e))"

subsection \<open>The retry path\<close>

text \<open>
  One pass through the body of the loop of \<open>executeRequestWithRetries\<close> ends in a
  return from the function (or a panic), in \<open>continue\<close>, or in \<open>break\<close>; the loop's
  variables \<open>resp\<close>, \<open>err\<close> and \<open>retryCount\<close> travel with the last two. The line
  numbers are those of \<open>http_request.go\<close>. \<open>retryCount\<close> is an unbounded integer: the
  counter of the source goes up by one per backoff and stops at the bound.
\<close>

datatype step =
    Exit call_result
  | Continue "response option" "error option" int
  | Break "response option" "error option"

text \<open>
  Lines 228 to 235, "Handle error responses". With \<open>err\<close> nil the condition reads
  \<open>resp.StatusCode\<close>; after the decoder, \<open>log.LogError\<close> is handed \<open>resp.StatusCode\<close>
  and \<open>resp.Status\<close>. The decoder never returns nil, so \<open>err\<close> is always replaced.
\<close>

definition handleErrorResponses ::
    "deps \<Rightarrow> response option \<Rightarrow> error option \<Rightarrow> int \<Rightarrow> world \<Rightarrow> world \<times> step" where
  "handleErrorResponses D resp err retryCount w =
     (case (if err \<noteq> None then Returns True
            else (case resp of
                    None \<Rightarrow> Panics
                  | Some x \<Rightarrow> Returns (\<not> IsRetryableStatusCode D (StatusCode x)))) of
        Panics \<Rightarrow> (w, Exit Panicked)
      | Returns False \<Rightarrow> (w, Continue resp err retryCount)
      | Returns True \<Rightarrow>
          (case HandleAPIErrorResponse D resp of
             Panics \<Rightarrow> (w, Exit Panicked)
           | Returns apiErr \<Rightarrow>
               (case resp of
                  None \<Rightarrow> (w, Exit Panicked)
                | Some x \<Rightarrow> (w, Break resp (Some (APIErr apiErr))))))"

text \<open>Lines 215 to 226, "Handling retryable errors with exponential backoff".\<close>

definition handleTransient ::
    "deps \<Rightarrow> ClientConfig \<Rightarrow> response option \<Rightarrow> error option \<Rightarrow> int \<Rightarrow> world \<Rightarrow> world \<times> step" where
  "handleTransient D cfg resp err retryCount w =
     (case IsTransientError D resp of
        Panics \<Rightarrow> (w, Exit Panicked)
      | Returns True \<Rightarrow>
          (let retryCount' = retryCount + 1 in
           if MaxRetryAttempts cfg < retryCount' then (w, Break resp err)
           else (time_Sleep BackoffWait (CalculateBackoff D retryCount') w,
                 Continue resp err retryCount'))
      | Returns False \<Rightarrow> handleErrorResponses D resp err retryCount w)"

text \<open>Lines 205 to 213, "Parsing rate limit headers if a rate-limit error is detected".\<close>

definition handleRateLimit ::
    "deps \<Rightarrow> ClientConfig \<Rightarrow> response option \<Rightarrow> error option \<Rightarrow> int \<Rightarrow> world \<Rightarrow> world \<times> step" where
  "handleRateLimit D cfg resp err retryCount w =
     (case IsRateLimitError D resp of
        Panics \<Rightarrow> (w, Exit Panicked)
      | Returns True \<Rightarrow>
          (case ParseRateLimitHeaders D resp (now w) of
             Panics \<Rightarrow> (w, Exit Panicked)
           | Returns waitDuration \<Rightarrow>
               if 0 < waitDuration
               then (time_Sleep RateLimitWait waitDuration w, Continue resp err retryCount)
               else handleTransient D cfg resp err retryCount w)
      | Returns False \<Rightarrow> handleTransient D cfg resp err retryCount w)"

text \<open>Lines 196 to 203: the status message and the non-retryable statuses.\<close>

definition handleFailure ::
    "deps \<Rightarrow> ClientConfig \<Rightarrow> response option \<Rightarrow> error option \<Rightarrow> int \<Rightarrow> world \<Rightarrow> world \<times> step" where
  "handleFailure D cfg resp err retryCount w =
     (case TranslateStatusCode D resp of
        Panics \<Rightarrow> (w, Exit Panicked)
      | Returns statusMessage \<Rightarrow>
          (case resp of
             None \<Rightarrow> handleRateLimit D cfg resp err retryCount w
           | Some x \<Rightarrow>
               if IsNonRetryableStatusCode D x then
                 (case HandleAPIErrorResponse D resp of
                    Panics \<Rightarrow> (w, Exit Panicked)
                  | Returns apiErr \<Rightarrow> (w, Exit (Returned resp (Some (APIErr apiErr)))))
               else handleRateLimit D cfg resp err retryCount w))"

text \<open>Lines 176 to 194: the send and the successful statuses.\<close>

definition attempt :: "deps \<Rightarrow> ClientConfig \<Rightarrow> call \<Rightarrow> int \<Rightarrow> world \<Rightarrow> world \<times> step" where
  "attempt D cfg C retryCount w =
     (let r = script C (sends w); w1 = do_send C w in
      case r of
        Response x \<Rightarrow>
          if 200 \<le> StatusCode x \<and> StatusCode x < 400
          then (w1, Exit (Returned (Some x) (HandleAPISuccessResponse D x)))
          else handleFailure D cfg (resp_of r) (err_of r) retryCount w1
      | Failed e \<Rightarrow> handleFailure D cfg (resp_of r) (err_of r) retryCount w1)"

text \<open>Lines 238 to 243, after the loop.\<close>

definition afterLoop :: "deps \<Rightarrow> response option \<Rightarrow> error option \<Rightarrow> world \<Rightarrow> world \<times> call_result" where
  "afterLoop D resp err w =
     (case err of
        Some e \<Rightarrow> (w, Returned None (Some e))
      | None \<Rightarrow>
          (case HandleAPIErrorResponse D resp of
             Panics \<Rightarrow> (w, Panicked)
           | Returns apiErr \<Rightarrow> (w, Returned resp (Some (APIErr apiErr)))))"

function retryLoop ::
    "deps \<Rightarrow> ClientConfig \<Rightarrow> call \<Rightarrow> int \<Rightarrow> response option \<Rightarrow> error option \<Rightarrow> int \<Rightarrow> world
       \<Rightarrow> world \<times> call_result" where
  "retryLoop D cfg C totalRetryDeadline resp err retryCount w =
     (if now w < totalRetryDeadline then
        (case attempt D cfg C retryCount w of
           (w', Exit res) \<Rightarrow> (w', res)
         | (w', Continue resp' err' retryCount') \<Rightarrow>
             retryLoop D cfg C totalRetryDeadline resp' err' retryCount' w'
         | (w', Break resp' err') \<Rightarrow> afterLoop D resp' err' w')
      else afterLoop D resp err w)"
  by pat_completeness auto

termination
  apply (relation "measure (\<lambda>(D, cfg, C, totalRetryDeadline, resp, err, retryCount, w).
                              nat (totalRetryDeadline - now w))")
   apply simp
  subgoal premises prems for D cfg C totalRetryDeadline resp err retryCount w w' st resp' err' retryCount'
  proof -
    have sent: "now w < now (do_send C w)"
      by (simp add: do_send_def)
    have slept: "\<And>kind d v. now v \<le> now (time_Sleep kind d v)"
      by (simp add: time_Sleep_def)
    have e: "\<And>r e k v. now v \<le> now (fst (handleErrorResponses D r e k v))"
      by (simp add: handleErrorResponses_def split: outcome.split option.split bool.split)
    have t: "\<And>r e k v. now v \<le> now (fst (handleTransient D cfg r e k v))"
      using e slept by (simp add: handleTransient_def Let_def split: outcome.split bool.split)
    have l: "\<And>r e k v. now v \<le> now (fst (handleRateLimit D cfg r e k v))"
      using t slept by (simp add: handleRateLimit_def split: outcome.split bool.split)
    have f: "\<And>r e k v. now v \<le> now (fst (handleFailure D cfg r e k v))"
      using l by (simp add: handleFailure_def split: outcome.split option.split)
    have "now (do_send C w) \<le> now (fst (attempt D cfg C retryCount w))"
      using f by (simp add: attempt_def Let_def split: send_result.split)
    with sent prems(2) have "now w < now w'"
      by (metis fst_conv less_le_trans)
    with prems(1) show ?thesis
      by simp
  qed
  done

declare retryLoop.simps [simp del]

text \<open>
  \<open>executeRequestWithRetries\<close>: the token check, the permit with its deferred release
  (which also runs when the body panics), then the body up to the loop.
\<close>

definition acquirePermit :: "world \<Rightarrow> world" where
  "acquirePermit w = w\<lparr>permits_acquired := Suc (permits_acquired w)\<rparr>"

definition ReleaseConcurrencyPermit :: "world \<Rightarrow> world" where
  "ReleaseConcurrencyPermit w = w\<lparr>permits_released := Suc (permits_released w)\<rparr>"

definition retriesBody :: "deps \<Rightarrow> ClientConfig \<Rightarrow> call \<Rightarrow> world \<Rightarrow> world \<times> call_result" where
  "retriesBody D cfg C w =
     (case marshal C of
        Some e \<Rightarrow> (w, Returned None (Some e))
      | None \<Rightarrow>
          (let w1 = w\<lparr>TotalRequests := Suc (TotalRequests w)\<rparr> in
           case new_request C of
             Some e \<Rightarrow> (w1, Returned None (Some e))
           | None \<Rightarrow>
               (let totalRetryDeadline = now w1 + TotalRetryDuration cfg
                in retryLoop D cfg C totalRetryDeadline None None 0 w1)))"

definition executeRequestWithRetries ::
    "deps \<Rightarrow> ClientConfig \<Rightarrow> call \<Rightarrow> world \<Rightarrow> world \<times> call_result" where
  "executeRequestWithRetries D cfg C w =
     (case auth C of
        (valid, err) \<Rightarrow>
          if err \<noteq> None \<or> \<not> valid then (w, Returned None err)
          else
            (case acquire C of
               Some e \<Rightarrow> (w, Returned None (Some (OtherError ''Failed to acquire concurrency permit'')))
             | None \<Rightarrow>
                 (case retriesBody D cfg C (acquirePermit w) of
                    (w', res) \<Rightarrow> (ReleaseConcurrencyPermit w', res))))"

subsection \<open>The single-shot path\<close>

definition EvaluateAndAdjustConcurrency :: "world \<Rightarrow> world" where
  "EvaluateAndAdjustConcurrency w = w\<lparr>evaluations := Suc (evaluations w)\<rparr>"

definition requestBody :: "deps \<Rightarrow> call \<Rightarrow> world \<Rightarrow> world \<times> call_result" where
  "requestBody D C w =
     (case marshal C of
        Some e \<Rightarrow> (w, Returned None (Some e))
      | None \<Rightarrow>
          (case new_request C of
             Some e \<Rightarrow> (w, Returned None (Some e))
           | None \<Rightarrow>
               (let r = script C (sends w); w1 = do_send C w in
                case r of
                  Failed e \<Rightarrow> (w1, Returned None (Some (TransportError e)))
                | Response x \<Rightarrow>
                    (let w2 = EvaluateAndAdjustConcurrency w1 in
                     if 200 \<le> StatusCode x \<and> StatusCode x < 400
                     then (w2, Returned (Some x) (HandleAPISuccessResponse D x))
                     else (case HandleAPIErrorResponse D (Some x) of
                             Panics \<Rightarrow> (w2, Panicked)
                           | Returns apiErr \<Rightarrow> (w2, Returned None (Some (APIErr apiErr))))))))"

definition executeRequest :: "deps \<Rightarrow> call \<Rightarrow> world \<Rightarrow> world \<times> call_result" where
  "executeRequest D C w =
     (case auth C of
        (valid, err) \<Rightarrow>
          if err \<noteq> None \<or> \<not> valid then (w, Returned None err)
          else
            (case acquire C of
               Some e \<Rightarrow> (w, Returned None (Some (OtherError ''Failed to acquire concurrency permit'')))
             | None \<Rightarrow>
                 (case requestBody D C (acquirePermit w) of
                    (w', res) \<Rightarrow> (ReleaseConcurrencyPermit w', res))))"

subsection \<open>Dispatch\<close>

text \<open>
  Modelled from the spec: the package \<open>httpmethod\<close> is not among the sources. The retry
  path takes GET, PUT, DELETE, HEAD and OPTIONS, the single-shot path POST and PATCH.
\<close>

definition IsIdempotentHTTPMethod :: "string \<Rightarrow> bool" where
  "IsIdempotentHTTPMethod m = (m \<in> set [''GET'', ''PUT'', ''DELETE'', ''HEAD'', ''OPTIONS''])"

definition IsNonIdempotentHTTPMethod :: "string \<Rightarrow> bool" where
  "IsNonIdempotentHTTPMethod m = (m \<in> set [''POST'', ''PATCH''])"

definition DoRequest :: "deps \<Rightarrow> ClientConfig \<Rightarrow> call \<Rightarrow> world \<Rightarrow> world \<times> call_result" where
  "DoRequest D cfg C w =
     (if IsIdempotentHTTPMethod (request_method C) then executeRequestWithRetries D cfg C w
      else if IsNonIdempotentHTTPMethod (request_method C) then executeRequest D C w
      else (w, Returned None (Some (OtherError ''HTTP method not supported''))))"

subsection \<open>What the properties observe\<close>

text \<open>The backoff sleeps among the sleeps of a world.\<close>

definition backoff_sleeps :: "world \<Rightarrow> (sleep_kind \<times> int \<times> int) list" where
  "backoff_sleeps w = filter (\<lambda>s. fst s = BackoffWait) (sleep_log w)"

text \<open>
  The world in which the body of \<open>executeRequestWithRetries\<close> reaches its loop: the
  permit acquired and the request counted.
\<close>

definition loopStart :: "world \<Rightarrow> world" where
  "loopStart w = (acquirePermit w)\<lparr>TotalRequests := Suc (TotalRequests w)\<rparr>"

text \<open>
  What the part of a pass that follows the send does to the world and to the retry
  count: nothing, a rate-limit wait with the count kept, or a backoff sleep with the
  count one higher and within the bound. Only the last two continue the loop with a
  changed world.
\<close>

definition stepShape :: "ClientConfig \<Rightarrow> int \<Rightarrow> world \<Rightarrow> world \<times> step \<Rightarrow> bool" where
  "stepShape cfg retryCount w p =
     ((fst p = w \<and> (case snd p of Continue r e k \<Rightarrow> k = retryCount | _ \<Rightarrow> True))
      \<or> (\<exists>d. 0 < d \<and> fst p = time_Sleep RateLimitWait d w \<and>
               (case snd p of Continue r e k \<Rightarrow> k = retryCount | _ \<Rightarrow> False))
      \<or> (\<exists>d. fst p = time_Sleep BackoffWait d w \<and> retryCount + 1 \<le> MaxRetryAttempts cfg \<and>
               (case snd p of Continue r e k \<Rightarrow> k = retryCount + 1 | _ \<Rightarrow> False)))"

text \<open>The configuration \<open>LoadConfigFromEnv\<close> hands to the validation.\<close>

definition finalConfig :: "go_time \<Rightarrow> (string \<rightharpoonup> string) \<Rightarrow> ClientConfig option \<Rightarrow> ClientConfig" where
  "finalConfig T env config_ptr =
     setClientDefaultValues (setLoggerDefaultValues
       (applyEnv T env (case config_ptr of None \<Rightarrow> zeroClientConfig | Some c \<Rightarrow> c)))"

section \<open>Example inputs\<close>

subsection \<open>Status functions\<close>

text \<open>
  Modelled from the spec: the package \<open>status\<close> is not among the sources. The spec's
  classifier is a function of the status code: 429 is rate-limited, 408, 425, 429, 500,
  502, 503 and 504 are transient, 401 and 403 mean an expired token, and every other
  code from 400 to 599 is non-retryable. An absent response has no status code to read.
\<close>

definition transientStatusCodes :: "int list" where
  "transientStatusCodes = [408, 425, 429, 500, 502, 503, 504]"

definition spec_TranslateStatusCode :: "response option \<Rightarrow> string outcome" where
  "spec_TranslateStatusCode resp =
     (case resp of None \<Rightarrow> Panics | Some x \<Rightarrow> Returns (strconv_Itoa (StatusCode x)))"

definition spec_IsNonRetryableStatusCode :: "response \<Rightarrow> bool" where
  "spec_IsNonRetryableStatusCode x =
     (400 \<le> StatusCode x \<and> StatusCode x \<le> 599 \<and>
      StatusCode x \<notin> set transientStatusCodes \<and> StatusCode x \<notin> set [401, 403])"

definition spec_IsRateLimitError :: "response option \<Rightarrow> bool outcome" where
  "spec_IsRateLimitError resp =
     (case resp of None \<Rightarrow> Panics | Some x \<Rightarrow> Returns (StatusCode x = 429))"

definition spec_IsTransientError :: "response option \<Rightarrow> bool outcome" where
  "spec_IsTransientError resp =
     (case resp of None \<Rightarrow> Panics | Some x \<Rightarrow> Returns (StatusCode x \<in> set transientStatusCodes))"

definition spec_IsRetryableStatusCode :: "int \<Rightarrow> bool" where
  "spec_IsRetryableStatusCode code = (code \<in> set transientStatusCodes)"

subsection \<open>Collaborators\<close>

text \<open>
  The backoff of \<open>calculateBackoff\<close> when the random draw gives no jitter, and
  \<open>time.Parse(time.RFC1123, _)\<close> at the one date the examples use. \<open>example_deps\<close> has
  the status functions of the spec, which read the status code of the response they are
  handed; \<open>nil_tolerant_deps\<close> has them answer for a nil response as well.
\<close>

definition backoffNoJitter :: "int \<Rightarrow> int" where
  "backoffNoJitter retry = min (5 * Second) (100 * Millisecond * 2 ^ nat (max 0 retry))"

definition rfc1123_epoch :: "string \<Rightarrow> int option" where
  "rfc1123_epoch s = (if s = ''Thu, 01 Jan 1970 00:00:00 UTC'' then Some 0 else None)"

definition example_deps :: deps where
  "example_deps =
     \<lparr>TranslateStatusCode = spec_TranslateStatusCode,
      IsNonRetryableStatusCode = spec_IsNonRetryableStatusCode,
      IsRateLimitError = spec_IsRateLimitError,
      IsTransientError = spec_IsTransientError,
      IsRetryableStatusCode = spec_IsRetryableStatusCode,
      CalculateBackoff = backoffNoJitter,
      HandleAPISuccessResponse = (\<lambda>x. None),
      Parse_RFC1123 = rfc1123_epoch,
      Unmarshal = json_rejecting\<rparr>"

definition nil_tolerant_deps :: deps where
  "nil_tolerant_deps =
     example_deps\<lparr>
       TranslateStatusCode :=
         (\<lambda>resp. case resp of None \<Rightarrow> Returns ''No response received''
                               | Some x \<Rightarrow> spec_TranslateStatusCode resp),
       IsRateLimitError :=
         (\<lambda>resp. case resp of None \<Rightarrow> Returns False | Some x \<Rightarrow> spec_IsRateLimitError resp),
       IsTransientError :=
         (\<lambda>resp. case resp of None \<Rightarrow> Returns False | Some x \<Rightarrow> spec_IsTransientError resp)\<rparr>"

subsection \<open>Responses, scripts and calls\<close>

definition plain_response :: "int \<Rightarrow> response" where
  "plain_response code =
     \<lparr>StatusCode = code, Status = strconv_Itoa code, Header = Map.empty, Body = Some []\<rparr>"

definition hdr_response :: "(string \<rightharpoonup> string) \<Rightarrow> response" where
  "hdr_response h = \<lparr>StatusCode = 429, Status = ''429 Too Many Requests'', Header = h, Body = Some []\<rparr>"

definition body_response :: "int \<Rightarrow> string \<Rightarrow> string option \<Rightarrow> response" where
  "body_response code contentType body =
     \<lparr>StatusCode = code, Status = strconv_Itoa code,
      Header = [''Content-Type'' \<mapsto> contentType], Body = body\<rparr>"

definition rate_limited_response :: "string \<Rightarrow> response" where
  "rate_limited_response retryAfter =
     \<lparr>StatusCode = 429, Status = ''429 Too Many Requests'',
      Header = [''Retry-After'' \<mapsto> retryAfter], Body = Some []\<rparr>"

definition script_200 :: "nat \<Rightarrow> send_result" where
  "script_200 n = Response (plain_response 200)"

definition script_429_then_200 :: "nat \<Rightarrow> send_result" where
  "script_429_then_200 n =
     (if n = 0 then Response (rate_limited_response ''3600'') else Response (plain_response 200))"

definition script_always_503 :: "nat \<Rightarrow> send_result" where
  "script_always_503 n = Response (plain_response 503)"

definition script_refused :: "nat \<Rightarrow> send_result" where
  "script_refused n = Failed ''connection refused''"

text \<open>
  A call whose token is valid, whose permit is granted and whose request is built, each
  send taking a millisecond; and a world in which nothing has happened yet.
\<close>

definition example_call :: "string \<Rightarrow> (nat \<Rightarrow> send_result) \<Rightarrow> call" where
  "example_call m s =
     \<lparr>request_method = m, auth = (True, None), acquire = None, marshal = None, new_request = None,
      script = s, latency = (\<lambda>n. 1000000)\<rparr>"

definition world0 :: world where
  "world0 =
     \<lparr>now = 0, sends = 0, send_log = [], sleep_log = [], permits_acquired = 0,
      permits_released = 0, TotalRequests = 0, evaluations = 0\<rparr>"

subsection \<open>Configurations and environments\<close>

text \<open>
  The configuration with the compiled defaults; a configuration whose flags are set and
  whose numbers are not the defaults; the environment with the four variables the spec
  calls mandatory, the one that has the log level and format as well, and one where
  every flag, number and duration is unparseable.
\<close>

definition example_config :: ClientConfig where
  "example_config =
     zeroClientConfig\<lparr>MaxRetryAttempts := 3, MaxConcurrentRequests := 5,
       TokenRefreshBufferPeriod := 5 * Minute, TotalRetryDuration := 5 * Minute,
       CustomTimeout := 10 * Second\<rparr>"

definition careful_config :: ClientConfig where
  "careful_config =
     zeroClientConfig\<lparr>HideSensitiveData := True, EnableDynamicRateLimiting := True,
       MaxRetryAttempts := 7, MaxConcurrentRequests := 2, TokenRefreshBufferPeriod := Minute,
       TotalRetryDuration := Minute, CustomTimeout := Second\<rparr>"

definition mandatory_env :: "string \<rightharpoonup> string" where
  "mandatory_env =
     [''CLIENT_ID'' \<mapsto> ''id'', ''CLIENT_SECRET'' \<mapsto> ''secret'',
      ''INSTANCE_NAME'' \<mapsto> ''acme'', ''API_TYPE'' \<mapsto> ''jamfpro'']"

definition complete_env :: "string \<rightharpoonup> string" where
  "complete_env = mandatory_env(''LOG_LEVEL'' \<mapsto> ''info'', ''LOG_OUTPUT_FORMAT'' \<mapsto> ''json'')"

definition invalid_env :: "string \<rightharpoonup> string" where
  "invalid_env =
     complete_env(''HIDE_SENSITIVE_DATA'' \<mapsto> ''yes'', ''ENABLE_DYNAMIC_RATE_LIMITING'' \<mapsto> ''on'',
       ''MAX_RETRY_ATTEMPTS'' \<mapsto> ''three'', ''MAX_CONCURRENT_REQUESTS'' \<mapsto> ''many'',
       ''TOKEN_REFRESH_BUFFER_PERIOD'' \<mapsto> ''abc'', ''TOTAL_RETRY_DURATION'' \<mapsto> ''abc'',
       ''CUSTOM_TIMEOUT'' \<mapsto> ''abc'')"

subsection \<open>A body that decodes to nil\<close>

text \<open>
  \<open>json.Unmarshal\<close> at the bodies of the examples: the JSON text \<open>null\<close> decodes
  without an error, into a nil pointer and into a nil map; the other bodies of the
  examples are not JSON.
\<close>

definition json_null :: json_Unmarshal where
  "json_null =
     \<lparr>into_APIError = (\<lambda>bodyBytes e. if bodyBytes = ''null'' then DecodedNull else DecodeError e),
      into_map = (\<lambda>bodyBytes. if bodyBytes = ''null'' then Some Map.empty else None)\<rparr>"

definition null_deps :: deps where
  "null_deps = example_deps\<lparr>Unmarshal := json_null\<rparr>"

definition null_response :: "int \<Rightarrow> response" where
  "null_response code = body_response code ''application/json'' (Some ''null'')"

definition script_null :: "int \<Rightarrow> nat \<Rightarrow> send_result" where
  "script_null code n = Response (null_response code)"
section \<open>Properties\<close>

subsection \<open>Content-type lookup\<close>

lemmas atoi_defs = strconv_Atoi_def signed_digits_def digit_of_def in_int64_def

text \<open>
  Claim C8: the content-type lookup is deterministic, and the longest matching prefix wins.
  The code returns at the first matching key of a range over a Go map. For the map with
  the two prefixes \<open>/api\<close> (XML) and \<open>/api/upload\<close> (no content type) and the endpoint
  \<open>/api/upload/1\<close>, the two iteration orders of the same map give two different
  headers, and the order that meets \<open>/api\<close> first does not give the longest prefix's.
\<close>

theorem GetContentTypeHeader_order_dependent:
  "map_of [(''/api'', \<lparr>ContentType = Some ''application/xml''\<rparr>), (''/api/upload'', \<lparr>ContentType = None\<rparr>)]
     = map_of [(''/api/upload'', \<lparr>ContentType = None\<rparr>), (''/api'', \<lparr>ContentType = Some ''application/xml''\<rparr>)]
   \<and> GetContentTypeHeader
        [(''/api'', \<lparr>ContentType = Some ''application/xml''\<rparr>), (''/api/upload'', \<lparr>ContentType = None\<rparr>)]
        ''/api/upload/1'' = ''application/xml''
   \<and> GetContentTypeHeader
        [(''/api/upload'', \<lparr>ContentType = None\<rparr>), (''/api'', \<lparr>ContentType = Some ''application/xml''\<rparr>)]
        ''/api/upload/1'' = []"
proof (intro conjI)
  show "map_of [(''/api'', \<lparr>ContentType = Some ''application/xml''\<rparr>), (''/api/upload'', \<lparr>ContentType = None\<rparr>)]
     = map_of [(''/api/upload'', \<lparr>ContentType = None\<rparr>), (''/api'', \<lparr>ContentType = Some ''application/xml''\<rparr>)]"
    by (rule ext) simp
qed simp_all

lemma retryAfterWait_int:
  "strconv_Atoi (Header_Get (Header resp) ''Retry-After'') = Some n \<Longrightarrow>
   retryAfterWait P resp tnow = Some (wrap64 (n * Second))"
  by (auto simp: retryAfterWait_def Let_def strconv_Atoi_def)

lemma wrap64_id: "in_int64 x \<Longrightarrow> wrap64 x = x"
  by (simp add: wrap64_def in_int64_def)

lemma sat64_id: "in_int64 x \<Longrightarrow> sat64 x = x"
  by (simp add: sat64_def in_int64_def)

text \<open>
  Claim C6, as amended: on a present response the parser always returns, and whenever
  the duration fits 64 bits it returns the integer number of seconds of Retry-After,
  negative ones included; the distance from now to the date, negative for a date in the
  past, when Retry-After is not an integer but an RFC 1123 date; reset minus now plus
  the five seconds of skew buffer when Retry-After is absent or unparseable,
  X-RateLimit-Remaining is 0 and X-RateLimit-Reset is an integer; and zero otherwise.
\<close>

theorem parseRateLimitHeaders_cases:
  fixes resp :: response and tnow :: int and P :: "string \<Rightarrow> int option"
  defines "ra \<equiv> Header_Get (Header resp) ''Retry-After''"
    and "remaining \<equiv> Header_Get (Header resp) ''X-RateLimit-Remaining''"
    and "reset \<equiv> Header_Get (Header resp) ''X-RateLimit-Reset''"
  shows
   "(\<forall>n. strconv_Atoi ra = Some n \<and> in_int64 (n * Second) \<longrightarrow>
        parseRateLimitHeaders P resp tnow = n * Second)
  \<and> (\<forall>d. ra \<noteq> [] \<and> strconv_Atoi ra = None \<and> P ra = Some d \<and> in_int64 (d - tnow) \<longrightarrow>
        parseRateLimitHeaders P resp tnow = d - tnow)
  \<and> (\<forall>e. (ra = [] \<or> (strconv_Atoi ra = None \<and> P ra = None)) \<and> remaining = ''0'' \<and>
          strconv_Atoi reset = Some e \<and> in_int64 (e * Second - tnow) \<and>
          in_int64 (e * Second - tnow + 5 * Second) \<longrightarrow>
        parseRateLimitHeaders P resp tnow = e * Second - tnow + 5 * Second)
  \<and> ((ra = [] \<or> (strconv_Atoi ra = None \<and> P ra = None)) \<and>
      (remaining \<noteq> ''0'' \<or> strconv_Atoi reset = None) \<longrightarrow>
        parseRateLimitHeaders P resp tnow = 0)"
proof (intro conjI allI impI)
  fix n assume "strconv_Atoi ra = Some n \<and> in_int64 (n * Second)"
  then show "parseRateLimitHeaders P resp tnow = n * Second"
    by (simp add: parseRateLimitHeaders_def retryAfterWait_int ra_def wrap64_id)
next
  fix d assume "ra \<noteq> [] \<and> strconv_Atoi ra = None \<and> P ra = Some d \<and> in_int64 (d - tnow)"
  then show "parseRateLimitHeaders P resp tnow = d - tnow"
    by (simp add: parseRateLimitHeaders_def retryAfterWait_def ra_def time_Until_def sat64_id)
next
  fix e
  assume h: "(ra = [] \<or> (strconv_Atoi ra = None \<and> P ra = None)) \<and> remaining = ''0'' \<and>
          strconv_Atoi reset = Some e \<and> in_int64 (e * Second - tnow) \<and>
          in_int64 (e * Second - tnow + 5 * Second)"
  then have r: "retryAfterWait P resp tnow = None"
    by (auto simp: retryAfterWait_def ra_def Let_def)
  from h have "reset \<noteq> []" by (auto simp: strconv_Atoi_def)
  with h have "rateLimitResetWait resp tnow = Some (e * Second - tnow + 5 * Second)"
    by (simp add: rateLimitResetWait_def remaining_def reset_def time_Until_def time_Unix_def
        skewBuffer_def sat64_id wrap64_id)
  with r show "parseRateLimitHeaders P resp tnow = e * Second - tnow + 5 * Second"
    by (simp add: parseRateLimitHeaders_def)
next
  assume h: "(ra = [] \<or> (strconv_Atoi ra = None \<and> P ra = None)) \<and>
      (remaining \<noteq> ''0'' \<or> strconv_Atoi reset = None)"
  then have r: "retryAfterWait P resp tnow = None"
    by (auto simp: retryAfterWait_def ra_def Let_def)
  from h have "rateLimitResetWait resp tnow = None"
    by (auto simp: rateLimitResetWait_def remaining_def reset_def Let_def)
  with r show "parseRateLimitHeaders P resp tnow = 0"
    by (simp add: parseRateLimitHeaders_def)
qed

text \<open>
  Counterexample to claim C6 as stated: Retry-After \<open>-5\<close> gives minus five seconds
  where the claim says zero, and a date one second in the past gives minus one second
  where the claim says the result is clamped at zero.
\<close>

theorem parseRateLimitHeaders_negative:
  "parseRateLimitHeaders rfc1123_epoch (hdr_response [''Retry-After'' \<mapsto> ''-5'']) 0 = - 5000000000
   \<and> parseRateLimitHeaders rfc1123_epoch
        (hdr_response [''Retry-After'' \<mapsto> ''Thu, 01 Jan 1970 00:00:00 UTC'']) 1000000000 = - 1000000000"
  by (simp add: parseRateLimitHeaders_def retryAfterWait_def hdr_response_def Header_Get_def
      atoi_defs wrap64_def Second_def rfc1123_epoch_def time_Until_def sat64_def)

text \<open>Claim C6, the four cases on four responses.\<close>

theorem parseRateLimitHeaders_cases_witness:
  "parseRateLimitHeaders rfc1123_epoch (hdr_response [''Retry-After'' \<mapsto> ''2'']) 7 = 2 * Second
   \<and> parseRateLimitHeaders rfc1123_epoch
        (hdr_response [''Retry-After'' \<mapsto> ''Thu, 01 Jan 1970 00:00:00 UTC'']) (- 3) = 3
   \<and> parseRateLimitHeaders rfc1123_epoch
        (hdr_response [''X-RateLimit-Remaining'' \<mapsto> ''0'', ''X-RateLimit-Reset'' \<mapsto> ''10''])
        (4 * Second) = 11 * Second
   \<and> parseRateLimitHeaders rfc1123_epoch (hdr_response [''Retry-After'' \<mapsto> ''soon'']) 7 = 0"
proof (intro conjI)
  let ?r1 = "hdr_response [''Retry-After'' \<mapsto> ''2'']"
  have "strconv_Atoi (Header_Get (Header ?r1) ''Retry-After'') = Some 2 \<and> in_int64 (2 * Second)"
    by (simp add: hdr_response_def Header_Get_def atoi_defs Second_def)
  with parseRateLimitHeaders_cases [of ?r1 rfc1123_epoch 7]
  show "parseRateLimitHeaders rfc1123_epoch ?r1 7 = 2 * Second" by blast
next
  let ?r2 = "hdr_response [''Retry-After'' \<mapsto> ''Thu, 01 Jan 1970 00:00:00 UTC'']"
  let ?ra = "Header_Get (Header ?r2) ''Retry-After''"
  have "?ra \<noteq> [] \<and> strconv_Atoi ?ra = None \<and> rfc1123_epoch ?ra = Some 0 \<and> in_int64 (0 - (- 3))"
    by (simp add: hdr_response_def Header_Get_def atoi_defs rfc1123_epoch_def)
  with parseRateLimitHeaders_cases [of ?r2 rfc1123_epoch "- 3"]
  have "parseRateLimitHeaders rfc1123_epoch ?r2 (- 3) = 0 - (- 3)" by blast
  then show "parseRateLimitHeaders rfc1123_epoch ?r2 (- 3) = 3" by simp
next
  let ?r3 = "hdr_response [''X-RateLimit-Remaining'' \<mapsto> ''0'', ''X-RateLimit-Reset'' \<mapsto> ''10'']"
  have "(Header_Get (Header ?r3) ''Retry-After'' = []
          \<or> (strconv_Atoi (Header_Get (Header ?r3) ''Retry-After'') = None
              \<and> rfc1123_epoch (Header_Get (Header ?r3) ''Retry-After'') = None))
        \<and> Header_Get (Header ?r3) ''X-RateLimit-Remaining'' = ''0''
        \<and> strconv_Atoi (Header_Get (Header ?r3) ''X-RateLimit-Reset'') = Some 10
        \<and> in_int64 (10 * Second - 4 * Second)
        \<and> in_int64 (10 * Second - 4 * Second + 5 * Second)"
    by (simp add: hdr_response_def Header_Get_def atoi_defs Second_def)
  with parseRateLimitHeaders_cases [of ?r3 rfc1123_epoch "4 * Second"]
  have "parseRateLimitHeaders rfc1123_epoch ?r3 (4 * Second) = 10 * Second - 4 * Second + 5 * Second"
    by blast
  then show "parseRateLimitHeaders rfc1123_epoch ?r3 (4 * Second) = 11 * Second" by simp
next
  let ?r4 = "hdr_response [''Retry-After'' \<mapsto> ''soon'']"
  have "(Header_Get (Header ?r4) ''Retry-After'' = []
          \<or> (strconv_Atoi (Header_Get (Header ?r4) ''Retry-After'') = None
              \<and> rfc1123_epoch (Header_Get (Header ?r4) ''Retry-After'') = None))
        \<and> (Header_Get (Header ?r4) ''X-RateLimit-Remaining'' \<noteq> ''0''
            \<or> strconv_Atoi (Header_Get (Header ?r4) ''X-RateLimit-Reset'') = None)"
    by (simp add: hdr_response_def Header_Get_def atoi_defs rfc1123_epoch_def)
  with parseRateLimitHeaders_cases [of ?r4 rfc1123_epoch 7]
  show "parseRateLimitHeaders rfc1123_epoch ?r4 7 = 0" by blast
qed

subsection \<open>Error response decoder\<close>

text \<open>
  The branches of the decoder that return the record with the status code of the
  response: a body that cannot be read gives the default record; a body not labelled
  JSON gives the message "HTML error page received" or "Non-JSON error response
  received" with the raw body; a JSON-labelled body that fails both parses, the record
  left as it was, gives the default record.
\<close>
lemma handleAPIErrorResponse_shapes:
  "(Body resp = None \<longrightarrow>
      handleAPIErrorResponse json (Some resp) =
        Returns \<lparr>ErrStatusCode = StatusCode resp, ErrType = ''APIError'',
                 Message = ''An error occurred'', Detail = [], Errors = [], Raw = []\<rparr>)
   \<and> (\<forall>b. Body resp = Some b \<and> \<not> isJSONResponse resp \<and> isHTMLResponse resp \<longrightarrow>
         handleAPIErrorResponse json (Some resp) =
           Returns \<lparr>ErrStatusCode = StatusCode resp, ErrType = ''APIError'',
                    Message = ''HTML error page received'', Detail = [], Errors = [], Raw = b\<rparr>)
   \<and> (\<forall>b. Body resp = Some b \<and> \<not> isJSONResponse resp \<and> \<not> isHTMLResponse resp \<longrightarrow>
         handleAPIErrorResponse json (Some resp) =
           Returns \<lparr>ErrStatusCode = StatusCode resp, ErrType = ''APIError'',
                    Message = ''Non-JSON error response received'', Detail = [], Errors = [],
                    Raw = b\<rparr>)
   \<and> (\<forall>b. Body resp = Some b \<and> isJSONResponse resp \<and>
           into_APIError json b (defaultAPIError resp) = DecodeError (defaultAPIError resp) \<and>
           into_map json b = None \<longrightarrow>
         handleAPIErrorResponse json (Some resp) =
           Returns \<lparr>ErrStatusCode = StatusCode resp, ErrType = ''APIError'',
                    Message = ''An error occurred'', Detail = [], Errors = [], Raw = []\<rparr>)"
proof (intro conjI allI impI)
  assume "Body resp = None"
  then show "handleAPIErrorResponse json (Some resp) =
        Returns \<lparr>ErrStatusCode = StatusCode resp, ErrType = ''APIError'',
                 Message = ''An error occurred'', Detail = [], Errors = [], Raw = []\<rparr>"
    by (simp add: handleAPIErrorResponse_def defaultAPIError_def)
next
  fix b assume "Body resp = Some b \<and> \<not> isJSONResponse resp \<and> isHTMLResponse resp"
  then show "handleAPIErrorResponse json (Some resp) =
           Returns \<lparr>ErrStatusCode = StatusCode resp, ErrType = ''APIError'',
                    Message = ''HTML error page received'', Detail = [], Errors = [], Raw = b\<rparr>"
    by (simp add: handleAPIErrorResponse_def defaultAPIError_def)
next
  fix b assume "Body resp = Some b \<and> \<not> isJSONResponse resp \<and> \<not> isHTMLResponse resp"
  then show "handleAPIErrorResponse json (Some resp) =
           Returns \<lparr>ErrStatusCode = StatusCode resp, ErrType = ''APIError'',
                    Message = ''Non-JSON error response received'', Detail = [], Errors = [],
                    Raw = b\<rparr>"
    by (simp add: handleAPIErrorResponse_def defaultAPIError_def)
next
  fix b
  assume h: "Body resp = Some b \<and> isJSONResponse resp \<and>
           into_APIError json b (defaultAPIError resp) = DecodeError (defaultAPIError resp) \<and>
           into_map json b = None"
  then have "genericErrorFallback json b (defaultAPIError resp) = Returns (defaultAPIError resp)"
    by (simp add: genericErrorFallback_def)
  with h have "handleAPIErrorResponse json (Some resp) = Returns (defaultAPIError resp)"
    by (simp add: handleAPIErrorResponse_def)
  then show "handleAPIErrorResponse json (Some resp) =
           Returns \<lparr>ErrStatusCode = StatusCode resp, ErrType = ''APIError'',
                    Message = ''An error occurred'', Detail = [], Errors = [], Raw = []\<rparr>"
    by (simp add: defaultAPIError_def)
qed

text \<open>
  Claim C7: the decoder is total, never panics, and gives every unparseable shape,
  a JSON-labelled body that fails both parses included, the opaque shape with the raw
  body attached. The code does not do that on the JSON branch. The structured parse
  decodes into the pointer \<open>apiError\<close> itself, so a body that decodes to nil makes the
  next statement read \<open>apiError.Message\<close> through a nil pointer: the decoder panics.
  And a JSON-labelled body that fails both parses falls through to the last
  \<open>return\<close> with the default record: \<open>Raw\<close> stays empty, where the HTML branch and the
  branch for other bodies both attach the body.
\<close>

theorem handleAPIErrorResponse_json_branch:
  "(\<forall>b. Body resp = Some b \<and> isJSONResponse resp \<and>
         into_APIError json b (defaultAPIError resp) = DecodedNull \<longrightarrow>
       handleAPIErrorResponse json (Some resp) = Panics)
   \<and> (\<forall>b. Body resp = Some b \<and> isJSONResponse resp \<and>
           into_APIError json b (defaultAPIError resp) = DecodeError (defaultAPIError resp) \<and>
           into_map json b = None \<longrightarrow>
         handleAPIErrorResponse json (Some resp) =
           Returns \<lparr>ErrStatusCode = StatusCode resp, ErrType = ''APIError'',
                    Message = ''An error occurred'', Detail = [], Errors = [], Raw = []\<rparr>)"
proof (intro conjI allI impI)
  fix b
  assume "Body resp = Some b \<and> isJSONResponse resp \<and>
         into_APIError json b (defaultAPIError resp) = DecodedNull"
  then show "handleAPIErrorResponse json (Some resp) = Panics"
    by (simp add: handleAPIErrorResponse_def)
next
  fix b
  assume h: "Body resp = Some b \<and> isJSONResponse resp \<and>
           into_APIError json b (defaultAPIError resp) = DecodeError (defaultAPIError resp) \<and>
           into_map json b = None"
  then have "genericErrorFallback json b (defaultAPIError resp) = Returns (defaultAPIError resp)"
    by (simp add: genericErrorFallback_def)
  with h have "handleAPIErrorResponse json (Some resp) = Returns (defaultAPIError resp)"
    by (simp add: handleAPIErrorResponse_def)
  then show "handleAPIErrorResponse json (Some resp) =
           Returns \<lparr>ErrStatusCode = StatusCode resp, ErrType = ''APIError'',
                    Message = ''An error occurred'', Detail = [], Errors = [], Raw = []\<rparr>"
    by (simp add: defaultAPIError_def)
qed

text \<open>
  Claim C7 on two responses labelled \<open>application/json\<close>: the body \<open>null\<close> makes the
  decoder panic, and the body \<open>{oops\<close> comes back as the default record without the
  body.
\<close>

theorem handleAPIErrorResponse_json_branch_witness:
  "handleAPIErrorResponse json_null (Some (null_response 500)) = Panics
   \<and> handleAPIErrorResponse json_null
       (Some (body_response 500 ''application/json'' (Some ''{oops''))) =
     Returns \<lparr>ErrStatusCode = 500, ErrType = ''APIError'', Message = ''An error occurred'',
              Detail = [], Errors = [], Raw = []\<rparr>"
proof
  let ?r1 = "null_response 500"
  have "Body ?r1 = Some ''null'' \<and> isJSONResponse ?r1 \<and>
        into_APIError json_null ''null'' (defaultAPIError ?r1) = DecodedNull"
    by (simp add: null_response_def body_response_def isJSONResponse_def Header_Get_def
        json_null_def)
  with handleAPIErrorResponse_json_branch [of ?r1 json_null]
  show "handleAPIErrorResponse json_null (Some ?r1) = Panics"
    by blast
next
  let ?r2 = "body_response 500 ''application/json'' (Some ''{oops'')"
  have "Body ?r2 = Some ''{oops'' \<and> isJSONResponse ?r2 \<and>
        into_APIError json_null ''{oops'' (defaultAPIError ?r2) = DecodeError (defaultAPIError ?r2) \<and>
        into_map json_null ''{oops'' = None"
    by (simp add: body_response_def isJSONResponse_def Header_Get_def json_null_def)
  with handleAPIErrorResponse_json_branch [of ?r2 json_null]
  have "handleAPIErrorResponse json_null (Some ?r2) =
           Returns \<lparr>ErrStatusCode = StatusCode ?r2, ErrType = ''APIError'',
                    Message = ''An error occurred'', Detail = [], Errors = [], Raw = []\<rparr>"
    by blast
  then show "handleAPIErrorResponse json_null (Some ?r2) =
     Returns \<lparr>ErrStatusCode = 500, ErrType = ''APIError'', Message = ''An error occurred'',
              Detail = [], Errors = [], Raw = []\<rparr>"
    by (simp add: body_response_def)
qed

subsection \<open>Client configuration\<close>

lemma setClientDefaultValues_strings:
  "Auth_ClientID (setClientDefaultValues c) = Auth_ClientID c"
  "Auth_ClientSecret (setClientDefaultValues c) = Auth_ClientSecret c"
  "Environment_InstanceName (setClientDefaultValues c) = Environment_InstanceName c"
  "Environment_OverrideBaseDomain (setClientDefaultValues c) = Environment_OverrideBaseDomain c"
  "Environment_APIType (setClientDefaultValues c) = Environment_APIType c"
  "LogLevel (setClientDefaultValues c) = LogLevel c"
  "LogOutputFormat (setClientDefaultValues c) = LogOutputFormat c"
  "LogConsoleSeparator (setClientDefaultValues c) = LogConsoleSeparator c"
  "HideSensitiveData (setClientDefaultValues c) = HideSensitiveData c"
  "EnableDynamicRateLimiting (setClientDefaultValues c) = EnableDynamicRateLimiting c"
  by (simp_all add: setClientDefaultValues_def Let_def)

lemma setClientDefaultValues_numbers:
  "MaxRetryAttempts (setClientDefaultValues c) =
     (if MaxRetryAttempts c < 0 then DefaultMaxRetryAttempts else MaxRetryAttempts c)"
  "MaxConcurrentRequests (setClientDefaultValues c) =
     (if MaxConcurrentRequests c \<le> 0 then DefaultMaxConcurrentRequests else MaxConcurrentRequests c)"
  "TokenRefreshBufferPeriod (setClientDefaultValues c) =
     (if TokenRefreshBufferPeriod c \<le> 0 then DefaultTokenBufferPeriod else TokenRefreshBufferPeriod c)"
  "TotalRetryDuration (setClientDefaultValues c) =
     (if TotalRetryDuration c \<le> 0 then DefaultTotalRetryDuration else TotalRetryDuration c)"
  "CustomTimeout (setClientDefaultValues c) =
     (if CustomTimeout c = 0 then DefaultTimeout else CustomTimeout c)"
  by (auto simp: setClientDefaultValues_def Let_def DefaultTokenBufferPeriod_def
      DefaultTotalRetryDuration_def Minute_def)

lemma setLoggerDefaultValues_fields:
  "Auth_ClientID (setLoggerDefaultValues c) = Auth_ClientID c"
  "Auth_ClientSecret (setLoggerDefaultValues c) = Auth_ClientSecret c"
  "Environment_InstanceName (setLoggerDefaultValues c) = Environment_InstanceName c"
  "Environment_OverrideBaseDomain (setLoggerDefaultValues c) = Environment_OverrideBaseDomain c"
  "Environment_APIType (setLoggerDefaultValues c) = Environment_APIType c"
  "LogLevel (setLoggerDefaultValues c) = LogLevel c"
  "LogOutputFormat (setLoggerDefaultValues c) = LogOutputFormat c"
  "LogConsoleSeparator (setLoggerDefaultValues c) =
     (if LogConsoleSeparator c = [] then '','' else LogConsoleSeparator c)"
  "HideSensitiveData (setLoggerDefaultValues c) = HideSensitiveData c"
  "EnableDynamicRateLimiting (setLoggerDefaultValues c) = EnableDynamicRateLimiting c"
  "MaxRetryAttempts (setLoggerDefaultValues c) = MaxRetryAttempts c"
  "MaxConcurrentRequests (setLoggerDefaultValues c) = MaxConcurrentRequests c"
  "TokenRefreshBufferPeriod (setLoggerDefaultValues c) = TokenRefreshBufferPeriod c"
  "TotalRetryDuration (setLoggerDefaultValues c) = TotalRetryDuration c"
  "CustomTimeout (setLoggerDefaultValues c) = CustomTimeout c"
  by (simp_all add: setLoggerDefaultValues_def)

lemma LoadConfigFromEnv_final:
  "LoadConfigFromEnv T env cp =
     (case validateMandatoryConfiguration (finalConfig T env cp) of
        Some err \<Rightarrow> Inl err | None \<Rightarrow> Inr (finalConfig T env cp))"
  by (simp add: LoadConfigFromEnv_def finalConfig_def Let_def split: option.split)

lemma validate_None_iff:
  "validateMandatoryConfiguration c = None \<longleftrightarrow>
     Auth_ClientID c \<noteq> [] \<and> Auth_ClientSecret c \<noteq> [] \<and> Environment_InstanceName c \<noteq> [] \<and>
     Environment_APIType c \<noteq> [] \<and> LogLevel c \<noteq> [] \<and> LogOutputFormat c \<noteq> [] \<and>
     LogConsoleSeparator c \<noteq> []"
  by (simp add: validateMandatoryConfiguration_def missingFields_def)

lemma LoadConfigFromEnv_fails_iff:
  fixes cp :: "ClientConfig option"
  defines "c0 \<equiv> (case cp of None \<Rightarrow> zeroClientConfig | Some c \<Rightarrow> c)"
  shows "(\<exists>e. LoadConfigFromEnv T env cp = Inl e) \<longleftrightarrow>
     getEnvOrDefault env ''CLIENT_ID'' (Auth_ClientID c0) = [] \<or>
     getEnvOrDefault env ''CLIENT_SECRET'' (Auth_ClientSecret c0) = [] \<or>
     getEnvOrDefault env ''INSTANCE_NAME'' (Environment_InstanceName c0) = [] \<or>
     getEnvOrDefault env ''API_TYPE'' (Environment_APIType c0) = [] \<or>
     getEnvOrDefault env ''LOG_LEVEL'' (LogLevel c0) = [] \<or>
     getEnvOrDefault env ''LOG_OUTPUT_FORMAT'' (LogOutputFormat c0) = []"
proof -
  have "(\<exists>e. LoadConfigFromEnv T env cp = Inl e) \<longleftrightarrow>
        validateMandatoryConfiguration (finalConfig T env cp) \<noteq> None"
    by (auto simp: LoadConfigFromEnv_final split: option.splits)
  also have "\<dots> \<longleftrightarrow>
     getEnvOrDefault env ''CLIENT_ID'' (Auth_ClientID c0) = [] \<or>
     getEnvOrDefault env ''CLIENT_SECRET'' (Auth_ClientSecret c0) = [] \<or>
     getEnvOrDefault env ''INSTANCE_NAME'' (Environment_InstanceName c0) = [] \<or>
     getEnvOrDefault env ''API_TYPE'' (Environment_APIType c0) = [] \<or>
     getEnvOrDefault env ''LOG_LEVEL'' (LogLevel c0) = [] \<or>
     getEnvOrDefault env ''LOG_OUTPUT_FORMAT'' (LogOutputFormat c0) = []"
    unfolding validate_None_iff finalConfig_def c0_def [symmetric]
    by (auto simp: setClientDefaultValues_strings setLoggerDefaultValues_fields applyEnv_def)
  finally show ?thesis .
qed

lemma LoadConfigFromEnv_Inr:
  "LoadConfigFromEnv T env cp = Inr c \<Longrightarrow> c = finalConfig T env cp"
  by (auto simp: LoadConfigFromEnv_final split: option.splits)

lemma LoadConfigFromEnv_succeeds:
  "(\<not> (\<exists>e. LoadConfigFromEnv T env cp = Inl e)) \<Longrightarrow>
   LoadConfigFromEnv T env cp = Inr (finalConfig T env cp)"
  by (auto simp: LoadConfigFromEnv_final split: option.splits)

text \<open>
  Claim C5: construction fails exactly when one of the four mandatory fields is missing,
  and every optional variable missing from the environment takes its documented default.
  The code does not do that. \<open>DefaultLogLevel\<close>, \<open>DefaultMaxRetryAttempts\<close> and
  \<open>DefaultEnableDynamicRateLimiting\<close> are declared, but no default is applied to an unset
  log level, log format, flag or retry count. From a nil configuration, construction
  fails whenever LOG_LEVEL or LOG_OUTPUT_FORMAT is missing, whatever else is set; and
  when it succeeds, a missing HIDE_SENSITIVE_DATA leaves the flag false, a missing
  MAX_RETRY_ATTEMPTS leaves the count 0, and a missing ENABLE_DYNAMIC_RATE_LIMITING
  leaves the flag false, where the documented defaults are true, 3 and true.
\<close>

theorem LoadConfigFromEnv_defaults_not_applied:
  "(env ''LOG_LEVEL'' = None \<or> env ''LOG_OUTPUT_FORMAT'' = None \<longrightarrow>
      (\<exists>e. LoadConfigFromEnv T env None = Inl e))
   \<and> (\<forall>c. LoadConfigFromEnv T env None = Inr c \<longrightarrow>
         (env ''HIDE_SENSITIVE_DATA'' = None \<longrightarrow> \<not> HideSensitiveData c) \<and>
         (env ''MAX_RETRY_ATTEMPTS'' = None \<longrightarrow> MaxRetryAttempts c = 0) \<and>
         (env ''ENABLE_DYNAMIC_RATE_LIMITING'' = None \<longrightarrow> \<not> EnableDynamicRateLimiting c))"
proof (intro conjI allI impI)
  assume "env ''LOG_LEVEL'' = None \<or> env ''LOG_OUTPUT_FORMAT'' = None"
  then have "getEnvOrDefault env ''LOG_LEVEL'' (LogLevel zeroClientConfig) = []
      \<or> getEnvOrDefault env ''LOG_OUTPUT_FORMAT'' (LogOutputFormat zeroClientConfig) = []"
    by (auto simp: getEnvOrDefault_def zeroClientConfig_def)
  then show "\<exists>e. LoadConfigFromEnv T env None = Inl e"
    using LoadConfigFromEnv_fails_iff [of T env None] by auto
next
  fix c assume "LoadConfigFromEnv T env None = Inr c" and "env ''HIDE_SENSITIVE_DATA'' = None"
  then show "\<not> HideSensitiveData c"
    by (auto dest!: LoadConfigFromEnv_Inr simp: finalConfig_def setClientDefaultValues_strings
        setLoggerDefaultValues_fields applyEnv_def getEnvOrDefault_def zeroClientConfig_def
        parseBool_def strconv_FormatBool_def strconv_ParseBool_def)
next
  have z: "strconv_Atoi (strconv_Itoa 0) = Some 0"
    by (simp add: strconv_Itoa_def nat_decimal.simps digit_char_def atoi_defs)
  fix c assume "LoadConfigFromEnv T env None = Inr c" and "env ''MAX_RETRY_ATTEMPTS'' = None"
  then show "MaxRetryAttempts c = 0"
    by (auto dest!: LoadConfigFromEnv_Inr simp: finalConfig_def setClientDefaultValues_numbers
        setLoggerDefaultValues_fields applyEnv_def getEnvOrDefault_def zeroClientConfig_def
        parseInt_def z)
next
  fix c assume "LoadConfigFromEnv T env None = Inr c"
    and "env ''ENABLE_DYNAMIC_RATE_LIMITING'' = None"
  then show "\<not> EnableDynamicRateLimiting c"
    by (auto dest!: LoadConfigFromEnv_Inr simp: finalConfig_def setClientDefaultValues_strings
        setLoggerDefaultValues_fields applyEnv_def getEnvOrDefault_def zeroClientConfig_def
        parseBool_def strconv_FormatBool_def strconv_ParseBool_def)
qed

text \<open>
  Claim C5 on two environments: with the four mandatory variables and nothing else
  construction fails, and the error names the log level and the log format; with
  LOG_LEVEL and LOG_OUTPUT_FORMAT set as well it succeeds, with both flags false and no
  retry attempts.
\<close>

theorem LoadConfigFromEnv_defaults_not_applied_witness:
  "LoadConfigFromEnv example_time mandatory_env None =
     Inl ''mandatory configuration missing: ClientOptions.LogLevel, ClientOptions.LogOutputFormat''
   \<and> (\<exists>e. LoadConfigFromEnv example_time mandatory_env None = Inl e)
   \<and> (\<exists>c. LoadConfigFromEnv example_time complete_env None = Inr c \<and>
          \<not> HideSensitiveData c \<and> MaxRetryAttempts c = 0 \<and> \<not> EnableDynamicRateLimiting c)"
proof (intro conjI)
  show "LoadConfigFromEnv example_time mandatory_env None =
     Inl ''mandatory configuration missing: ClientOptions.LogLevel, ClientOptions.LogOutputFormat''"
    by (simp add: LoadConfigFromEnv_final validateMandatoryConfiguration_def missingFields_def
      finalConfig_def setClientDefaultValues_strings setLoggerDefaultValues_fields applyEnv_def
      getEnvOrDefault_def zeroClientConfig_def mandatory_env_def)
next
  have "mandatory_env ''LOG_LEVEL'' = None \<or> mandatory_env ''LOG_OUTPUT_FORMAT'' = None"
    by (simp add: mandatory_env_def)
  with LoadConfigFromEnv_defaults_not_applied [of mandatory_env example_time]
  show "\<exists>e. LoadConfigFromEnv example_time mandatory_env None = Inl e"
    by blast
next
  note inst = LoadConfigFromEnv_defaults_not_applied [of complete_env example_time]
  have "\<not> (\<exists>e. LoadConfigFromEnv example_time complete_env None = Inl e)"
    by (simp add: LoadConfigFromEnv_fails_iff getEnvOrDefault_def complete_env_def
        mandatory_env_def)
  then obtain c where c: "LoadConfigFromEnv example_time complete_env None = Inr c"
    by (cases "LoadConfigFromEnv example_time complete_env None") auto
  have absent: "complete_env ''HIDE_SENSITIVE_DATA'' = None"
    "complete_env ''MAX_RETRY_ATTEMPTS'' = None"
    "complete_env ''ENABLE_DYNAMIC_RATE_LIMITING'' = None"
    by (simp_all add: complete_env_def mandatory_env_def)
  from inst c absent
  have "\<not> HideSensitiveData c \<and> MaxRetryAttempts c = 0 \<and> \<not> EnableDynamicRateLimiting c"
    by blast
  with c show "\<exists>c. LoadConfigFromEnv example_time complete_env None = Inr c \<and>
          \<not> HideSensitiveData c \<and> MaxRetryAttempts c = 0 \<and> \<not> EnableDynamicRateLimiting c"
    by blast
qed

text \<open>
  Claim C10: when the mandatory fields are present, loading succeeds whatever the other
  variables hold, and in the configuration it returns an unparseable HIDE_SENSITIVE_DATA
  or ENABLE_DYNAMIC_RATE_LIMITING makes the flag false, whatever the flag was before,
  while an unparseable MAX_RETRY_ATTEMPTS, MAX_CONCURRENT_REQUESTS,
  TOKEN_REFRESH_BUFFER_PERIOD, TOTAL_RETRY_DURATION and CUSTOM_TIMEOUT give the compiled
  defaults 3, 5, five minutes, five minutes and ten seconds.
\<close>

theorem LoadConfigFromEnv_invalid_values:
  fixes cp :: "ClientConfig option"
  defines "c0 \<equiv> (case cp of None \<Rightarrow> zeroClientConfig | Some c \<Rightarrow> c)"
  assumes present:
    "getEnvOrDefault env ''CLIENT_ID'' (Auth_ClientID c0) \<noteq> []"
    "getEnvOrDefault env ''CLIENT_SECRET'' (Auth_ClientSecret c0) \<noteq> []"
    "getEnvOrDefault env ''INSTANCE_NAME'' (Environment_InstanceName c0) \<noteq> []"
    "getEnvOrDefault env ''API_TYPE'' (Environment_APIType c0) \<noteq> []"
    "getEnvOrDefault env ''LOG_LEVEL'' (LogLevel c0) \<noteq> []"
    "getEnvOrDefault env ''LOG_OUTPUT_FORMAT'' (LogOutputFormat c0) \<noteq> []"
  shows
   "\<exists>c. LoadConfigFromEnv T env cp = Inr c \<and>
      (\<forall>s. env ''HIDE_SENSITIVE_DATA'' = Some s \<and> strconv_ParseBool s = None \<longrightarrow>
           \<not> HideSensitiveData c) \<and>
      (\<forall>s. env ''ENABLE_DYNAMIC_RATE_LIMITING'' = Some s \<and> strconv_ParseBool s = None \<longrightarrow>
           \<not> EnableDynamicRateLimiting c) \<and>
      (\<forall>s. env ''MAX_RETRY_ATTEMPTS'' = Some s \<and> strconv_Atoi s = None \<longrightarrow>
           MaxRetryAttempts c = 3) \<and>
      (\<forall>s. env ''MAX_CONCURRENT_REQUESTS'' = Some s \<and> strconv_Atoi s = None \<longrightarrow>
           MaxConcurrentRequests c = 5) \<and>
      (\<forall>s. env ''TOKEN_REFRESH_BUFFER_PERIOD'' = Some s \<and> time_ParseDuration T s = None \<longrightarrow>
           TokenRefreshBufferPeriod c = 5 * Minute) \<and>
      (\<forall>s. env ''TOTAL_RETRY_DURATION'' = Some s \<and> time_ParseDuration T s = None \<longrightarrow>
           TotalRetryDuration c = 5 * Minute) \<and>
      (\<forall>s. env ''CUSTOM_TIMEOUT'' = Some s \<and> time_ParseDuration T s = None \<longrightarrow>
           CustomTimeout c = 10 * Second)"
proof -
  have "\<not> (\<exists>e. LoadConfigFromEnv T env cp = Inl e)"
    using present unfolding c0_def by (simp add: LoadConfigFromEnv_fails_iff)
  then have ok: "LoadConfigFromEnv T env cp = Inr (finalConfig T env cp)"
    by (rule LoadConfigFromEnv_succeeds)
  let ?c = "finalConfig T env cp"
  have "\<And>s. env ''HIDE_SENSITIVE_DATA'' = Some s \<and> strconv_ParseBool s = None \<Longrightarrow>
           \<not> HideSensitiveData ?c"
    by (simp add: finalConfig_def setClientDefaultValues_strings setLoggerDefaultValues_fields
        applyEnv_def getEnvOrDefault_def parseBool_def)
  moreover have "\<And>s. env ''ENABLE_DYNAMIC_RATE_LIMITING'' = Some s \<and> strconv_ParseBool s = None \<Longrightarrow>
           \<not> EnableDynamicRateLimiting ?c"
    by (simp add: finalConfig_def setClientDefaultValues_strings setLoggerDefaultValues_fields
        applyEnv_def getEnvOrDefault_def parseBool_def)
  moreover have "\<And>s. env ''MAX_RETRY_ATTEMPTS'' = Some s \<and> strconv_Atoi s = None \<Longrightarrow>
           MaxRetryAttempts ?c = 3"
    by (simp add: finalConfig_def setClientDefaultValues_numbers setLoggerDefaultValues_fields
        applyEnv_def getEnvOrDefault_def parseInt_def DefaultMaxRetryAttempts_def)
  moreover have "\<And>s. env ''MAX_CONCURRENT_REQUESTS'' = Some s \<and> strconv_Atoi s = None \<Longrightarrow>
           MaxConcurrentRequests ?c = 5"
    by (simp add: finalConfig_def setClientDefaultValues_numbers setLoggerDefaultValues_fields
        applyEnv_def getEnvOrDefault_def parseInt_def DefaultMaxConcurrentRequests_def)
  moreover have "\<And>s. env ''TOKEN_REFRESH_BUFFER_PERIOD'' = Some s \<and> time_ParseDuration T s = None \<Longrightarrow>
           TokenRefreshBufferPeriod ?c = 5 * Minute"
    by (simp add: finalConfig_def setClientDefaultValues_numbers setLoggerDefaultValues_fields
        applyEnv_def getEnvOrDefault_def parseDuration_def DefaultTokenBufferPeriod_def Minute_def)
  moreover have "\<And>s. env ''TOTAL_RETRY_DURATION'' = Some s \<and> time_ParseDuration T s = None \<Longrightarrow>
           TotalRetryDuration ?c = 5 * Minute"
    by (simp add: finalConfig_def setClientDefaultValues_numbers setLoggerDefaultValues_fields
        applyEnv_def getEnvOrDefault_def parseDuration_def DefaultTotalRetryDuration_def Minute_def)
  moreover have "\<And>s. env ''CUSTOM_TIMEOUT'' = Some s \<and> time_ParseDuration T s = None \<Longrightarrow>
           CustomTimeout ?c = 10 * Second"
    by (simp add: finalConfig_def setClientDefaultValues_numbers setLoggerDefaultValues_fields
        applyEnv_def getEnvOrDefault_def parseDuration_def DefaultTimeout_def Second_def)
  ultimately show ?thesis using ok by blast
qed

text \<open>
  Claim C10 on a configuration whose flags are set and whose numbers differ from the
  defaults, under an environment where all seven variables are unparseable.
\<close>

theorem LoadConfigFromEnv_invalid_values_witness:
  "\<exists>c. LoadConfigFromEnv example_time invalid_env (Some careful_config) = Inr c \<and>
        \<not> HideSensitiveData c \<and> \<not> EnableDynamicRateLimiting c \<and> MaxRetryAttempts c = 3 \<and>
        MaxConcurrentRequests c = 5 \<and> TokenRefreshBufferPeriod c = 5 * Minute \<and>
        TotalRetryDuration c = 5 * Minute \<and> CustomTimeout c = 10 * Second"
proof -
  have env:
    "invalid_env ''HIDE_SENSITIVE_DATA'' = Some ''yes'' \<and> strconv_ParseBool ''yes'' = None"
    "invalid_env ''ENABLE_DYNAMIC_RATE_LIMITING'' = Some ''on'' \<and> strconv_ParseBool ''on'' = None"
    "invalid_env ''MAX_RETRY_ATTEMPTS'' = Some ''three'' \<and> strconv_Atoi ''three'' = None"
    "invalid_env ''MAX_CONCURRENT_REQUESTS'' = Some ''many'' \<and> strconv_Atoi ''many'' = None"
    "invalid_env ''TOKEN_REFRESH_BUFFER_PERIOD'' = Some ''abc'' \<and> time_ParseDuration example_time ''abc'' = None"
    "invalid_env ''TOTAL_RETRY_DURATION'' = Some ''abc'' \<and> time_ParseDuration example_time ''abc'' = None"
    "invalid_env ''CUSTOM_TIMEOUT'' = Some ''abc'' \<and> time_ParseDuration example_time ''abc'' = None"
    by (simp_all add: invalid_env_def complete_env_def mandatory_env_def strconv_ParseBool_def
        atoi_defs example_time_def)
  have "\<exists>c. LoadConfigFromEnv example_time invalid_env (Some careful_config) = Inr c \<and>
      (\<forall>s. invalid_env ''HIDE_SENSITIVE_DATA'' = Some s \<and> strconv_ParseBool s = None \<longrightarrow>
           \<not> HideSensitiveData c) \<and>
      (\<forall>s. invalid_env ''ENABLE_DYNAMIC_RATE_LIMITING'' = Some s \<and> strconv_ParseBool s = None \<longrightarrow>
           \<not> EnableDynamicRateLimiting c) \<and>
      (\<forall>s. invalid_env ''MAX_RETRY_ATTEMPTS'' = Some s \<and> strconv_Atoi s = None \<longrightarrow>
           MaxRetryAttempts c = 3) \<and>
      (\<forall>s. invalid_env ''MAX_CONCURRENT_REQUESTS'' = Some s \<and> strconv_Atoi s = None \<longrightarrow>
           MaxConcurrentRequests c = 5) \<and>
      (\<forall>s. invalid_env ''TOKEN_REFRESH_BUFFER_PERIOD'' = Some s \<and> time_ParseDuration example_time s = None \<longrightarrow>
           TokenRefreshBufferPeriod c = 5 * Minute) \<and>
      (\<forall>s. invalid_env ''TOTAL_RETRY_DURATION'' = Some s \<and> time_ParseDuration example_time s = None \<longrightarrow>
           TotalRetryDuration c = 5 * Minute) \<and>
      (\<forall>s. invalid_env ''CUSTOM_TIMEOUT'' = Some s \<and> time_ParseDuration example_time s = None \<longrightarrow>
           CustomTimeout c = 10 * Second)"
    by (rule LoadConfigFromEnv_invalid_values)
      (simp_all add: getEnvOrDefault_def invalid_env_def complete_env_def mandatory_env_def)
  with env show ?thesis by blast
qed

subsection \<open>Request executor\<close>

lemma stepShape_same:
  "stepShape cfg rc w (w, Exit r)" "stepShape cfg rc w (w, Break resp err)"
  "stepShape cfg rc w (w, Continue resp err rc)"
  by (simp_all add: stepShape_def)

lemma stepShape_sleeps:
  "0 < d \<Longrightarrow> stepShape cfg rc w (time_Sleep RateLimitWait d w, Continue resp err rc)"
  "rc + 1 \<le> MaxRetryAttempts cfg \<Longrightarrow>
     stepShape cfg rc w (time_Sleep BackoffWait d w, Continue resp err (rc + 1))"
  by (auto simp: stepShape_def)

lemma handleErrorResponses_shape:
  "stepShape cfg rc w (handleErrorResponses D resp err rc w)"
  by (simp add: handleErrorResponses_def stepShape_same
      split: outcome.split option.split bool.split)

lemma handleTransient_shape:
  "stepShape cfg rc w (handleTransient D cfg resp err rc w)"
  by (simp add: handleTransient_def Let_def stepShape_same stepShape_sleeps
      handleErrorResponses_shape split: outcome.split bool.split)

lemma handleRateLimit_shape:
  "stepShape cfg rc w (handleRateLimit D cfg resp err rc w)"
  by (simp add: handleRateLimit_def stepShape_same stepShape_sleeps handleTransient_shape
      split: outcome.split bool.split)

lemma handleFailure_shape:
  "stepShape cfg rc w (handleFailure D cfg resp err rc w)"
  by (simp add: handleFailure_def stepShape_same handleRateLimit_shape
      split: outcome.split option.split)

lemma attempt_shape:
  "stepShape cfg rc (do_send C w) (attempt D cfg C rc w)"
  by (simp add: attempt_def Let_def stepShape_same handleFailure_shape split: send_result.split)

lemma afterLoop_world: "fst (afterLoop D resp err w) = w"
  by (simp add: afterLoop_def split: option.split outcome.split)

lemma retryLoop_invariant:
  assumes step: "\<And>rc w p. now w < dl \<Longrightarrow> I rc w \<Longrightarrow> stepShape cfg rc (do_send C w) p \<Longrightarrow>
                   (case snd p of Continue r e k \<Rightarrow> I k (fst p) | _ \<Rightarrow> Q (fst p))"
    and stop: "\<And>rc w. I rc w \<Longrightarrow> Q w"
    and init: "I rc w"
  shows "Q (fst (retryLoop D cfg C dl resp err rc w))"
  using step stop init
proof (induction D cfg C dl resp err rc w rule: retryLoop.induct)
  case (1 D cfg C dl resp err rc w)
  note step' = "1.prems"(1) and stop' = "1.prems"(2) and init' = "1.prems"(3)
  show ?case
  proof (cases "now w < dl")
    case False
    with init' show ?thesis
      by (subst retryLoop.simps) (simp add: afterLoop_world stop')
  next
    case True
    obtain w' st where att: "attempt D cfg C rc w = (w', st)"
      by (cases "attempt D cfg C rc w")
    have shape: "stepShape cfg rc (do_send C w) (w', st)"
      using attempt_shape [of cfg rc C w D] att by simp
    from step' [OF True init' shape]
    have k: "case st of Continue r e k \<Rightarrow> I k w' | _ \<Rightarrow> Q w'"
      by (simp split: step.splits)
    show ?thesis
    proof (cases st)
      case (Exit res)
      with k att True show ?thesis
        by (subst retryLoop.simps) simp
    next
      case (Continue r e k')
      with k have "I k' w'" by simp
      from "1.IH" [OF True att [symmetric] Continue step' stop' this]
      have "Q (fst (retryLoop D cfg C dl r e k' w'))" .
      with att True Continue show ?thesis
        by (subst retryLoop.simps) simp
    next
      case (Break r e)
      with k att True show ?thesis
        by (subst retryLoop.simps) (simp add: afterLoop_world)
    qed
  qed
qed

lemmas exec_defs =
  executeRequestWithRetries_def retriesBody_def acquirePermit_def ReleaseConcurrencyPermit_def
  attempt_def handleFailure_def handleRateLimit_def handleTransient_def handleErrorResponses_def
  afterLoop_def do_send_def time_Sleep_def resp_of_def err_of_def Let_def
  ParseRateLimitHeaders_def HandleAPIErrorResponse_def
  example_deps_def example_call_def example_config_def world0_def zeroClientConfig_def
  spec_TranslateStatusCode_def spec_IsNonRetryableStatusCode_def spec_IsRateLimitError_def
  spec_IsTransientError_def spec_IsRetryableStatusCode_def transientStatusCodes_def
  plain_response_def backoffNoJitter_def Second_def Minute_def Millisecond_def

lemma handleFailure_nil:
  assumes "IsTransientError D None \<noteq> Returns True"
  shows "snd (handleFailure D cfg None (Some e) rc w) = Exit Panicked"
proof -
  have e: "snd (handleErrorResponses D None (Some e) rc w) = Exit Panicked"
    by (simp add: handleErrorResponses_def HandleAPIErrorResponse_def handleAPIErrorResponse_def)
  have t: "snd (handleTransient D cfg None (Some e) rc w) = Exit Panicked"
    using assms e by (simp add: handleTransient_def split: outcome.split bool.split)
  have l: "snd (handleRateLimit D cfg None (Some e) rc w) = Exit Panicked"
    using t by (simp add: handleRateLimit_def ParseRateLimitHeaders_def
        split: outcome.split bool.split)
  show ?thesis
    using l by (simp add: handleFailure_def split: outcome.split)
qed

text \<open>
  Claim C1: on the retry path a send that fails with a transport error is retried and,
  when the budget is spent, surfaces as a transport error, without a crash. The code
  does not do that. With \<open>resp\<close> nil and \<open>err\<close> set it goes on to the status checks, and
  unless \<open>status.IsTransientError\<close> calls a nil response transient it reaches
  "Handle error responses", where the decoder reads \<open>resp.StatusCode\<close>: the call panics
  on the first failed send.
\<close>

theorem transport_failure_panics:
  assumes "auth C = (True, None)" and "acquire C = None" and "marshal C = None"
    and "new_request C = None"
    and "0 < TotalRetryDuration cfg"
    and "script C (sends w) = Failed e"
    and "IsTransientError D None \<noteq> Returns True"
  shows "snd (executeRequestWithRetries D cfg C w) = Panicked"
proof -
  let ?w1 = "(acquirePermit w)\<lparr>TotalRequests := Suc (TotalRequests (acquirePermit w))\<rparr>"
  let ?dl = "now ?w1 + TotalRetryDuration cfg"
  have s: "script C (sends ?w1) = Failed e"
    using assms(6) by (simp add: acquirePermit_def)
  have "snd (attempt D cfg C 0 ?w1) = Exit Panicked"
    using handleFailure_nil [OF assms(7)] s
    by (simp add: attempt_def Let_def resp_of_def err_of_def)
  then obtain w2 where "attempt D cfg C 0 ?w1 = (w2, Exit Panicked)"
    by (cases "attempt D cfg C 0 ?w1") simp
  moreover have "now ?w1 < ?dl" using assms(5) by simp
  ultimately have "snd (retryLoop D cfg C ?dl None None 0 ?w1) = Panicked"
    by (subst retryLoop.simps) simp
  then show ?thesis
    using assms(1-4)
    by (auto simp: executeRequestWithRetries_def retriesBody_def Let_def split: prod.split)
qed

text \<open>
  Claim C1 on a refused connection, with status functions that read the status code of
  the nil response and with status functions that tolerate it.
\<close>

theorem transport_failure_panics_witness:
  "snd (executeRequestWithRetries example_deps example_config
          (example_call ''GET'' script_refused) world0) = Panicked
   \<and> snd (executeRequestWithRetries nil_tolerant_deps example_config
          (example_call ''GET'' script_refused) world0) = Panicked"
proof
  show "snd (executeRequestWithRetries example_deps example_config
          (example_call ''GET'' script_refused) world0) = Panicked"
    by (rule transport_failure_panics [where e = "''connection refused''"])
      (simp_all add: example_call_def example_config_def script_refused_def example_deps_def
        spec_IsTransientError_def Minute_def)
  show "snd (executeRequestWithRetries nil_tolerant_deps example_config
          (example_call ''GET'' script_refused) world0) = Panicked"
    by (rule transport_failure_panics [where e = "''connection refused''"])
      (simp_all add: example_call_def example_config_def script_refused_def nil_tolerant_deps_def
        example_deps_def Minute_def)
qed

lemma stepShape_frame:
  assumes "stepShape cfg rc w p"
  shows "send_log (fst p) = send_log w" and "sends (fst p) = sends w"
    and "evaluations (fst p) = evaluations w" and "TotalRequests (fst p) = TotalRequests w"
    and "permits_acquired (fst p) = permits_acquired w"
    and "permits_released (fst p) = permits_released w"
  using assms by (auto simp: stepShape_def time_Sleep_def)

lemma stepShape_backoffs:
  assumes "stepShape cfg rc w p"
  shows "case snd p of
           Continue r e k \<Rightarrow>
             int (length (backoff_sleeps (fst p))) + max 0 (MaxRetryAttempts cfg - k)
               \<le> int (length (backoff_sleeps w)) + max 0 (MaxRetryAttempts cfg - rc)
         | _ \<Rightarrow> backoff_sleeps (fst p) = backoff_sleeps w"
  using assms
  by (auto simp: stepShape_def time_Sleep_def backoff_sleeps_def split: step.splits)

lemma do_send_frame:
  "send_log (do_send C w) = now w # send_log w" "sends (do_send C w) = Suc (sends w)"
  "evaluations (do_send C w) = evaluations w" "TotalRequests (do_send C w) = TotalRequests w"
  "permits_acquired (do_send C w) = permits_acquired w"
  "permits_released (do_send C w) = permits_released w"
  "backoff_sleeps (do_send C w) = backoff_sleeps w" "sleep_log (do_send C w) = sleep_log w"
  by (simp_all add: do_send_def backoff_sleeps_def)

lemma retryLoop_send_log:
  "\<exists>new. send_log (fst (retryLoop D cfg C dl resp err rc w)) = new @ send_log w
         \<and> (\<forall>t\<in>set new. t < dl)"
proof (rule retryLoop_invariant
    [where I = "\<lambda>k v. \<exists>new. send_log v = new @ send_log w \<and> (\<forall>t\<in>set new. t < dl)"])
  fix k v p
  assume before: "now v < dl"
    and inv: "\<exists>new. send_log v = new @ send_log w \<and> (\<forall>t\<in>set new. t < dl)"
    and shape: "stepShape cfg k (do_send C v) p"
  from inv obtain new where new: "send_log v = new @ send_log w" "\<forall>t\<in>set new. t < dl"
    by blast
  have "send_log (fst p) = (now v # new) @ send_log w"
    using stepShape_frame(1) [OF shape] new(1) by (simp add: do_send_frame)
  moreover have "\<forall>t\<in>set (now v # new). t < dl"
    using before new(2) by simp
  ultimately have "\<exists>new. send_log (fst p) = new @ send_log w \<and> (\<forall>t\<in>set new. t < dl)"
    by blast
  then show "case snd p of
          Continue r e k \<Rightarrow> \<exists>new. send_log (fst p) = new @ send_log w \<and> (\<forall>t\<in>set new. t < dl)
        | _ \<Rightarrow> \<exists>new. send_log (fst p) = new @ send_log w \<and> (\<forall>t\<in>set new. t < dl)"
    by (simp split: step.split)
qed auto

lemma retryLoop_backoffs:
  "int (length (backoff_sleeps (fst (retryLoop D cfg C dl resp err rc w))))
     \<le> int (length (backoff_sleeps w)) + max 0 (MaxRetryAttempts cfg - rc)"
proof (rule retryLoop_invariant
    [where I = "\<lambda>k v. int (length (backoff_sleeps v)) + max 0 (MaxRetryAttempts cfg - k)
                         \<le> int (length (backoff_sleeps w)) + max 0 (MaxRetryAttempts cfg - rc)"])
  fix k v p
  assume inv: "int (length (backoff_sleeps v)) + max 0 (MaxRetryAttempts cfg - k)
                 \<le> int (length (backoff_sleeps w)) + max 0 (MaxRetryAttempts cfg - rc)"
    and shape: "stepShape cfg k (do_send C v) p"
  from stepShape_backoffs [OF shape] inv
  show "case snd p of
          Continue r e k' \<Rightarrow>
            int (length (backoff_sleeps (fst p))) + max 0 (MaxRetryAttempts cfg - k')
              \<le> int (length (backoff_sleeps w)) + max 0 (MaxRetryAttempts cfg - rc)
        | _ \<Rightarrow> int (length (backoff_sleeps (fst p)))
              \<le> int (length (backoff_sleeps w)) + max 0 (MaxRetryAttempts cfg - rc)"
    by (auto simp: do_send_frame split: step.splits)
qed auto

lemma retryLoop_metrics:
  "evaluations (fst (retryLoop D cfg C dl resp err rc w)) = evaluations w
   \<and> TotalRequests (fst (retryLoop D cfg C dl resp err rc w)) = TotalRequests w
   \<and> permits_acquired (fst (retryLoop D cfg C dl resp err rc w)) = permits_acquired w
   \<and> permits_released (fst (retryLoop D cfg C dl resp err rc w)) = permits_released w"
proof (rule retryLoop_invariant
    [where I = "\<lambda>k v. evaluations v = evaluations w \<and> TotalRequests v = TotalRequests w
                  \<and> permits_acquired v = permits_acquired w
                  \<and> permits_released v = permits_released w"])
  fix k v p
  assume inv: "evaluations v = evaluations w \<and> TotalRequests v = TotalRequests w
                  \<and> permits_acquired v = permits_acquired w
                  \<and> permits_released v = permits_released w"
    and shape: "stepShape cfg k (do_send C v) p"
  have "evaluations (fst p) = evaluations w \<and> TotalRequests (fst p) = TotalRequests w
                  \<and> permits_acquired (fst p) = permits_acquired w
                  \<and> permits_released (fst p) = permits_released w"
    using stepShape_frame [OF shape] inv by (simp add: do_send_frame)
  then show "case snd p of
          Continue r e k \<Rightarrow> evaluations (fst p) = evaluations w \<and> TotalRequests (fst p) = TotalRequests w
                  \<and> permits_acquired (fst p) = permits_acquired w
                  \<and> permits_released (fst p) = permits_released w
        | _ \<Rightarrow> evaluations (fst p) = evaluations w \<and> TotalRequests (fst p) = TotalRequests w
                  \<and> permits_acquired (fst p) = permits_acquired w
                  \<and> permits_released (fst p) = permits_released w"
    by (simp split: step.split)
qed auto

lemma executeRequestWithRetries_world:
  "fst (executeRequestWithRetries D cfg C w) = w
   \<or> fst (executeRequestWithRetries D cfg C w) = ReleaseConcurrencyPermit (acquirePermit w)
   \<or> fst (executeRequestWithRetries D cfg C w) =
       ReleaseConcurrencyPermit ((acquirePermit w)\<lparr>TotalRequests := Suc (TotalRequests w)\<rparr>)
   \<or> fst (executeRequestWithRetries D cfg C w) =
       ReleaseConcurrencyPermit
         (fst (retryLoop D cfg C (now w + TotalRetryDuration cfg) None None 0
                 ((acquirePermit w)\<lparr>TotalRequests := Suc (TotalRequests w)\<rparr>)))"
  by (auto simp: executeRequestWithRetries_def retriesBody_def Let_def acquirePermit_def
      split: prod.split option.split)

lemma permit_frame:
  "send_log (ReleaseConcurrencyPermit w) = send_log w"
  "send_log (acquirePermit w) = send_log w"
  "backoff_sleeps (ReleaseConcurrencyPermit w) = backoff_sleeps w"
  "backoff_sleeps (acquirePermit w) = backoff_sleeps w"
  "evaluations (ReleaseConcurrencyPermit w) = evaluations w"
  "evaluations (acquirePermit w) = evaluations w"
  "backoff_sleeps (w\<lparr>TotalRequests := n\<rparr>) = backoff_sleeps w"
  by (simp_all add: ReleaseConcurrencyPermit_def acquirePermit_def backoff_sleeps_def)

text \<open>
  What the deadline does bound: it is checked before each pass of the loop, so every
  send of a call on the retry path begins before it.
\<close>

lemma sends_begin_before_deadline:
  "\<exists>new. send_log (fst (executeRequestWithRetries D cfg C w)) = new @ send_log w
         \<and> (\<forall>t\<in>set new. t < now w + TotalRetryDuration cfg)"
proof -
  let ?w1 = "(acquirePermit w)\<lparr>TotalRequests := Suc (TotalRequests w)\<rparr>"
  let ?dl = "now w + TotalRetryDuration cfg"
  have trivial: "\<exists>new. send_log w = new @ send_log w \<and> (\<forall>t\<in>set new. t < ?dl)"
    by simp
  from retryLoop_send_log [of D cfg C ?dl None None 0 ?w1]
  have loop: "\<exists>new. send_log (fst (retryLoop D cfg C ?dl None None 0 ?w1)) = new @ send_log w
                \<and> (\<forall>t\<in>set new. t < ?dl)"
    by (simp add: permit_frame)
  from executeRequestWithRetries_world [of D cfg C w] trivial loop
  show ?thesis
    by (elim disjE) (simp_all add: permit_frame)
qed

text \<open>
  A call whose token is valid, whose permit is granted and whose request is built runs
  the loop from \<open>loopStart\<close> and releases the permit afterwards.
\<close>

lemma executeRequestWithRetries_loop:
  assumes "auth C = (True, None)" and "acquire C = None" and "marshal C = None"
    and "new_request C = None"
  shows "executeRequestWithRetries D cfg C w =
     (ReleaseConcurrencyPermit
        (fst (retryLoop D cfg C (now w + TotalRetryDuration cfg) None None 0 (loopStart w))),
      snd (retryLoop D cfg C (now w + TotalRetryDuration cfg) None None 0 (loopStart w)))"
  using assms
  by (simp add: executeRequestWithRetries_def retriesBody_def Let_def loopStart_def
      acquirePermit_def split: prod.split)

lemma loopStart_frame:
  "now (loopStart w) = now w" "sends (loopStart w) = sends w"
  "sleep_log (loopStart w) = sleep_log w"
  by (simp_all add: loopStart_def acquirePermit_def)

lemma release_frame:
  "now (ReleaseConcurrencyPermit w) = now w" "sends (ReleaseConcurrencyPermit w) = sends w"
  "sleep_log (ReleaseConcurrencyPermit w) = sleep_log w"
  by (simp_all add: ReleaseConcurrencyPermit_def)

text \<open>
  Claim C2: the wall time of a call on the retry path never exceeds the total retry
  duration, because no sleep is begun whose end would pass the deadline. The code does
  not do that: it computes the deadline and compares it with the clock before each
  send, but never with the end of a sleep. When the first send is answered with a
  rate-limit error whose advised wait is at least the whole retry budget, the call
  sleeps the whole wait, which ends after the deadline, and then gives up without
  another send, handing back that first answer as an error.
\<close>

theorem rate_limit_wait_ignores_deadline:
  assumes prelude: "auth C = (True, None)" "acquire C = None" "marshal C = None"
      "new_request C = None"
    and budget: "0 < TotalRetryDuration cfg"
    and answer: "script C (sends w) = Response x"
      "\<not> (200 \<le> StatusCode x \<and> StatusCode x < 400)"
    and status: "TranslateStatusCode D (Some x) = Returns m" "\<not> IsNonRetryableStatusCode D x"
      "IsRateLimitError D (Some x) = Returns True"
    and wait: "parseRateLimitHeaders (Parse_RFC1123 D) x (now (do_send C w)) = d"
    and long: "TotalRetryDuration cfg \<le> d"
  shows "sleep_log (fst (executeRequestWithRetries D cfg C w))
           = (RateLimitWait, now (do_send C w), d) # sleep_log w
   \<and> now w + TotalRetryDuration cfg < now (do_send C w) + d
   \<and> now (fst (executeRequestWithRetries D cfg C w)) = now (do_send C w) + d
   \<and> sends (fst (executeRequestWithRetries D cfg C w)) = Suc (sends w)
   \<and> snd (executeRequestWithRetries D cfg C w)
       = (case HandleAPIErrorResponse D (Some x) of
            Panics \<Rightarrow> Panicked
          | Returns apiErr \<Rightarrow> Returned (Some x) (Some (APIErr apiErr)))"
proof -
  let ?dl = "now w + TotalRetryDuration cfg"
  let ?w1 = "loopStart w"
  let ?w2 = "do_send C ?w1"
  let ?w3 = "time_Sleep RateLimitWait d ?w2"
  have pos: "0 < d" using budget long by simp
  have sent: "now ?w2 = now (do_send C w)" "sends ?w2 = Suc (sends w)"
    "sleep_log ?w2 = sleep_log w" "now w < now (do_send C w)"
    by (simp_all add: do_send_def loopStart_frame)
  have scr: "script C (sends ?w1) = Response x"
    using answer(1) by (simp add: loopStart_frame)
  have att: "attempt D cfg C 0 ?w1 = (?w3, Continue (Some x) None 0)"
    using scr answer(2) status wait pos sent(1)
    by (simp add: attempt_def Let_def handleFailure_def handleRateLimit_def
        ParseRateLimitHeaders_def resp_of_def err_of_def)
  have slept: "now ?w3 = now (do_send C w) + d" "sends ?w3 = Suc (sends w)"
    "sleep_log ?w3 = (RateLimitWait, now (do_send C w), d) # sleep_log w"
    using pos sent by (simp_all add: time_Sleep_def)
  have over: "\<not> now ?w3 < ?dl"
    using slept(1) sent(4) long by simp
  have first: "retryLoop D cfg C ?dl None None 0 ?w1 = retryLoop D cfg C ?dl (Some x) None 0 ?w3"
    using att budget by (subst retryLoop.simps) (simp add: loopStart_frame)
  have last: "retryLoop D cfg C ?dl (Some x) None 0 ?w3 = afterLoop D (Some x) None ?w3"
    using over by (subst retryLoop.simps) simp
  have run: "executeRequestWithRetries D cfg C w =
      (ReleaseConcurrencyPermit (fst (afterLoop D (Some x) None ?w3)),
       snd (afterLoop D (Some x) None ?w3))"
    using executeRequestWithRetries_loop [OF prelude, of D cfg w] first last by simp
  have res: "snd (afterLoop D (Some x) None ?w3)
       = (case HandleAPIErrorResponse D (Some x) of
            Panics \<Rightarrow> Panicked
          | Returns apiErr \<Rightarrow> Returned (Some x) (Some (APIErr apiErr)))"
    by (simp add: afterLoop_def split: outcome.split)
  show ?thesis
    using run res slept sent(4) long
    by (simp add: afterLoop_world release_frame)
qed

text \<open>
  Claim C2 with five minutes of total retry duration and a 429 whose Retry-After is
  3600: the call sleeps an hour from one millisecond in, ends after 3600 seconds where
  the deadline stood at 300, and returns the 429 as an error after its only send.
\<close>

theorem rate_limit_wait_ignores_deadline_witness:
  "sleep_log (fst (executeRequestWithRetries example_deps example_config
                     (example_call ''GET'' script_429_then_200) world0))
     = [(RateLimitWait, 1000000, 3600 * Second)]
   \<and> now world0 + TotalRetryDuration example_config = 300 * Second
   \<and> now (fst (executeRequestWithRetries example_deps example_config
                 (example_call ''GET'' script_429_then_200) world0)) = 1000000 + 3600 * Second
   \<and> sends (fst (executeRequestWithRetries example_deps example_config
                 (example_call ''GET'' script_429_then_200) world0)) = 1
   \<and> snd (executeRequestWithRetries example_deps example_config
             (example_call ''GET'' script_429_then_200) world0)
       = Returned (Some (rate_limited_response ''3600''))
           (Some (APIErr \<lparr>ErrStatusCode = 429, ErrType = ''APIError'',
                    Message = ''Non-JSON error response received'', Detail = [], Errors = [],
                    Raw = []\<rparr>))"
proof -
  let ?C = "example_call ''GET'' script_429_then_200"
  let ?x = "rate_limited_response ''3600''"
  have sent: "now (do_send ?C world0) = 1000000"
    by (simp add: do_send_def example_call_def world0_def)
  have dec: "HandleAPIErrorResponse example_deps (Some ?x) =
      Returns \<lparr>ErrStatusCode = 429, ErrType = ''APIError'',
                    Message = ''Non-JSON error response received'', Detail = [], Errors = [],
                    Raw = []\<rparr>"
    by (simp add: HandleAPIErrorResponse_def example_deps_def handleAPIErrorResponse_def
        defaultAPIError_def rate_limited_response_def isJSONResponse_def isHTMLResponse_def
        Header_Get_def)
  have budget: "now world0 + TotalRetryDuration example_config = 300 * Second"
    by (simp add: world0_def example_config_def Minute_def Second_def)
  have "sleep_log (fst (executeRequestWithRetries example_deps example_config ?C world0))
           = (RateLimitWait, now (do_send ?C world0), 3600 * Second) # sleep_log world0
   \<and> now world0 + TotalRetryDuration example_config < now (do_send ?C world0) + 3600 * Second
   \<and> now (fst (executeRequestWithRetries example_deps example_config ?C world0))
       = now (do_send ?C world0) + 3600 * Second
   \<and> sends (fst (executeRequestWithRetries example_deps example_config ?C world0))
       = Suc (sends world0)
   \<and> snd (executeRequestWithRetries example_deps example_config ?C world0)
       = (case HandleAPIErrorResponse example_deps (Some ?x) of
            Panics \<Rightarrow> Panicked
          | Returns apiErr \<Rightarrow> Returned (Some ?x) (Some (APIErr apiErr)))"
  proof (rule rate_limit_wait_ignores_deadline [where m = "''429''"])
    show "parseRateLimitHeaders (Parse_RFC1123 example_deps) ?x (now (do_send ?C world0))
        = 3600 * Second"
      by (simp add: parseRateLimitHeaders_def retryAfterWait_def rate_limited_response_def
          Header_Get_def atoi_defs wrap64_def Second_def)
    show "TranslateStatusCode example_deps (Some ?x) = Returns ''429''"
      by (simp add: example_deps_def spec_TranslateStatusCode_def rate_limited_response_def
          strconv_Itoa_def nat_decimal.simps digit_char_def)
  qed (simp_all add: example_call_def example_config_def example_deps_def world0_def
      script_429_then_200_def rate_limited_response_def spec_IsNonRetryableStatusCode_def
      spec_IsRateLimitError_def transientStatusCodes_def Minute_def Second_def)
  with sent dec budget show ?thesis
    by (simp add: world0_def)
qed

text \<open>
  A pass at the bound: when the counter stands at or above max-retry-attempts and the
  send of this pass is answered with a status that is not successful, not non-retryable,
  gives no rate-limit wait and is transient, the pass leaves the loop by \<open>break\<close>,
  with the send made and no sleep.
\<close>

lemma attempt_at_bound:
  assumes bound: "MaxRetryAttempts cfg \<le> retryCount"
    and answer: "script C (sends v) = Response x"
      "\<not> (200 \<le> StatusCode x \<and> StatusCode x < 400)"
    and status: "TranslateStatusCode D (Some x) = Returns m" "\<not> IsNonRetryableStatusCode D x"
      "IsRateLimitError D (Some x) = Returns False
       \<or> (IsRateLimitError D (Some x) = Returns True
           \<and> parseRateLimitHeaders (Parse_RFC1123 D) x (now (do_send C v)) \<le> 0)"
      "IsTransientError D (Some x) = Returns True"
  shows "attempt D cfg C retryCount v = (do_send C v, Break (Some x) None)"
proof -
  have t: "handleTransient D cfg (Some x) None retryCount (do_send C v)
      = (do_send C v, Break (Some x) None)"
    using bound status(4) by (simp add: handleTransient_def Let_def)
  have l: "handleRateLimit D cfg (Some x) None retryCount (do_send C v)
      = (do_send C v, Break (Some x) None)"
    using status(3) t
    by (auto simp: handleRateLimit_def ParseRateLimitHeaders_def)
  have f: "handleFailure D cfg (Some x) None retryCount (do_send C v)
      = (do_send C v, Break (Some x) None)"
    using status(1,2) l by (simp add: handleFailure_def)
  show ?thesis
    using answer f by (simp add: attempt_def Let_def resp_of_def err_of_def)
qed

text \<open>
  A pass below the bound on such an answer sleeps the backoff of the next attempt and
  goes round again with the counter one higher.
\<close>

lemma attempt_below_bound:
  assumes below: "retryCount < MaxRetryAttempts cfg"
    and answer: "script C (sends v) = Response x"
      "\<not> (200 \<le> StatusCode x \<and> StatusCode x < 400)"
    and status: "TranslateStatusCode D (Some x) = Returns m" "\<not> IsNonRetryableStatusCode D x"
      "IsRateLimitError D (Some x) = Returns False"
      "IsTransientError D (Some x) = Returns True"
  shows "attempt D cfg C retryCount v
      = (time_Sleep BackoffWait (CalculateBackoff D (retryCount + 1)) (do_send C v),
         Continue (Some x) None (retryCount + 1))"
proof -
  have t: "handleTransient D cfg (Some x) None retryCount (do_send C v)
      = (time_Sleep BackoffWait (CalculateBackoff D (retryCount + 1)) (do_send C v),
         Continue (Some x) None (retryCount + 1))"
    using below status(4) by (simp add: handleTransient_def Let_def)
  have l: "handleRateLimit D cfg (Some x) None retryCount (do_send C v)
      = (time_Sleep BackoffWait (CalculateBackoff D (retryCount + 1)) (do_send C v),
         Continue (Some x) None (retryCount + 1))"
    using status(3) t by (simp add: handleRateLimit_def)
  have f: "handleFailure D cfg (Some x) None retryCount (do_send C v)
      = (time_Sleep BackoffWait (CalculateBackoff D (retryCount + 1)) (do_send C v),
         Continue (Some x) None (retryCount + 1))"
    using status(1,2) l by (simp add: handleFailure_def)
  show ?thesis
    using answer f by (simp add: attempt_def Let_def resp_of_def err_of_def)
qed

text \<open>
  The loop entered with the counter at the bound, on such an answer: one send, no sleep,
  and the answer handed to the decoder.
\<close>

lemma retryLoop_at_bound:
  assumes "MaxRetryAttempts cfg \<le> retryCount" "now v < dl"
    and "script C (sends v) = Response x"
      "\<not> (200 \<le> StatusCode x \<and> StatusCode x < 400)"
    and "TranslateStatusCode D (Some x) = Returns m" "\<not> IsNonRetryableStatusCode D x"
      "IsRateLimitError D (Some x) = Returns False
       \<or> (IsRateLimitError D (Some x) = Returns True
           \<and> parseRateLimitHeaders (Parse_RFC1123 D) x (now (do_send C v)) \<le> 0)"
      "IsTransientError D (Some x) = Returns True"
  shows "retryLoop D cfg C dl resp err retryCount v
              = (do_send C v,
                 case HandleAPIErrorResponse D (Some x) of
                   Panics \<Rightarrow> Panicked
                 | Returns apiErr \<Rightarrow> Returned (Some x) (Some (APIErr apiErr)))"
proof -
  from assms have att: "attempt D cfg C retryCount v = (do_send C v, Break (Some x) None)"
    by (intro attempt_at_bound [where m = m]) simp_all
  have "retryLoop D cfg C dl resp err retryCount v = afterLoop D (Some x) None (do_send C v)"
    using assms(2) att by (subst retryLoop.simps) simp
  then show ?thesis
    by (simp add: afterLoop_def split: outcome.split)
qed

text \<open>
  The loop against a server that gives the same transient answer to every send, with a
  budget that covers the sends and backoff sleeps still to come (no send takes longer
  than \<open>L\<close>, no backoff longer than \<open>B\<close>): from the counter at \<open>retryCount\<close> the loop
  sends once per attempt left and once more, sleeps one backoff per attempt left, and
  hands the last answer to the decoder.
\<close>

lemma retryLoop_transient_run:
  assumes answer: "\<forall>n. script C n = Response x"
      "\<not> (200 \<le> StatusCode x \<and> StatusCode x < 400)"
    and status: "TranslateStatusCode D (Some x) = Returns m" "\<not> IsNonRetryableStatusCode D x"
      "IsRateLimitError D (Some x) = Returns False"
      "IsTransientError D (Some x) = Returns True"
    and cost: "\<forall>n. int (latency C n) \<le> L" "\<forall>k. CalculateBackoff D k \<le> B" "1 \<le> L" "0 \<le> B"
    and left: "n = nat (MaxRetryAttempts cfg - retryCount)"
    and budget: "now v + int n * (L + B) < dl"
  shows "sends (fst (retryLoop D cfg C dl resp err retryCount v)) = sends v + n + 1
       \<and> length (backoff_sleeps (fst (retryLoop D cfg C dl resp err retryCount v)))
           = length (backoff_sleeps v) + n
       \<and> snd (retryLoop D cfg C dl resp err retryCount v)
           = (case HandleAPIErrorResponse D (Some x) of
                Panics \<Rightarrow> Panicked
              | Returns apiErr \<Rightarrow> Returned (Some x) (Some (APIErr apiErr)))"
  using left budget
proof (induction n arbitrary: retryCount v resp err)
  case 0
  then have "MaxRetryAttempts cfg \<le> retryCount" "now v < dl"
    by simp_all
  with answer status
  have "retryLoop D cfg C dl resp err retryCount v
              = (do_send C v,
                 case HandleAPIErrorResponse D (Some x) of
                   Panics \<Rightarrow> Panicked
                 | Returns apiErr \<Rightarrow> Returned (Some x) (Some (APIErr apiErr)))"
    by (intro retryLoop_at_bound [where m = m]) simp_all
  then show ?case
    by (simp add: do_send_def backoff_sleeps_def)
next
  case (Suc n)
  let ?v = "time_Sleep BackoffWait (CalculateBackoff D (retryCount + 1)) (do_send C v)"
  from Suc.prems have below: "retryCount < MaxRetryAttempts cfg"
    and left': "n = nat (MaxRetryAttempts cfg - (retryCount + 1))"
    by simp_all
  have pos: "0 \<le> int n * (L + B)"
    using cost by simp
  have suc: "int (Suc n) * (L + B) = (L + B) + int n * (L + B)"
    by (simp add: algebra_simps)
  from Suc.prems(2) pos cost(3,4) have before: "now v < dl"
    unfolding suc by linarith
  have lat: "int (max 1 (latency C (sends v))) \<le> L"
    using cost(1,3) by (simp add: max_def)
  have nap: "max 0 (CalculateBackoff D (retryCount + 1)) \<le> B"
    using cost(2,4) by simp
  have clock: "now ?v = now v + int (max 1 (latency C (sends v)))
                 + max 0 (CalculateBackoff D (retryCount + 1))"
    by (simp add: time_Sleep_def do_send_def)
  have budget': "now ?v + int n * (L + B) < dl"
    using Suc.prems(2) lat nap unfolding clock suc by linarith
  from below answer status
  have att: "attempt D cfg C retryCount v = (?v, Continue (Some x) None (retryCount + 1))"
    by (intro attempt_below_bound [where m = m]) simp_all
  have unfold: "retryLoop D cfg C dl resp err retryCount v
      = retryLoop D cfg C dl (Some x) None (retryCount + 1) ?v"
    using before att by (subst retryLoop.simps) simp
  have frame: "sends ?v = Suc (sends v)"
    "length (backoff_sleeps ?v) = Suc (length (backoff_sleeps v))"
    by (simp_all add: time_Sleep_def do_send_def backoff_sleeps_def)
  from Suc.IH [OF left' budget', of "Some x" None] show ?case
    unfolding unfold by (simp add: frame)
qed

text \<open>
  Claim C3: the retry attempts of a call never exceed max-retry-attempts, and once the
  counter would pass the bound the call ends in an error instead of another send. The
  first half holds of every call: its backoff sleeps never number more than
  max-retry-attempts. At the bound the loop does stop. From any pass with the counter at
  the bound whose send gets a transient answer, the loop ends with that one send and no
  sleep. And a whole call against a server that gives the same transient answer to every
  send, within its budget of time, makes max-retry-attempts backoff sleeps, one send more
  than that, and no further send. But the call then hands the last answer to the decoder
  and ends in an error only if the decoder returns: on an answer whose JSON body decodes
  to nil the decoder panics, and the call crashes where an error is documented.
\<close>

theorem retry_attempts_bounded:
  "length (backoff_sleeps (fst (executeRequestWithRetries D cfg C w)))
     \<le> length (backoff_sleeps w) + nat (MaxRetryAttempts cfg)
   \<and> (\<forall>x m. MaxRetryAttempts cfg \<le> retryCount \<and> now v < dl
          \<and> script C (sends v) = Response x
          \<and> \<not> (200 \<le> StatusCode x \<and> StatusCode x < 400)
          \<and> TranslateStatusCode D (Some x) = Returns m
          \<and> \<not> IsNonRetryableStatusCode D x
          \<and> (IsRateLimitError D (Some x) = Returns False
               \<or> (IsRateLimitError D (Some x) = Returns True
                   \<and> parseRateLimitHeaders (Parse_RFC1123 D) x (now (do_send C v)) \<le> 0))
          \<and> IsTransientError D (Some x) = Returns True
        \<longrightarrow> retryLoop D cfg C dl resp err retryCount v
              = (do_send C v,
                 case HandleAPIErrorResponse D (Some x) of
                   Panics \<Rightarrow> Panicked
                 | Returns apiErr \<Rightarrow> Returned (Some x) (Some (APIErr apiErr))))
   \<and> (\<forall>x m L B. auth C = (True, None) \<and> acquire C = None \<and> marshal C = None
          \<and> new_request C = None
          \<and> (\<forall>n. script C n = Response x)
          \<and> \<not> (200 \<le> StatusCode x \<and> StatusCode x < 400)
          \<and> TranslateStatusCode D (Some x) = Returns m
          \<and> \<not> IsNonRetryableStatusCode D x
          \<and> IsRateLimitError D (Some x) = Returns False
          \<and> IsTransientError D (Some x) = Returns True
          \<and> (\<forall>n. int (latency C n) \<le> L) \<and> (\<forall>k. CalculateBackoff D k \<le> B)
          \<and> 1 \<le> L \<and> 0 \<le> B
          \<and> int (nat (MaxRetryAttempts cfg)) * (L + B) < TotalRetryDuration cfg
        \<longrightarrow> sends (fst (executeRequestWithRetries D cfg C w))
              = sends w + nat (MaxRetryAttempts cfg) + 1
            \<and> length (backoff_sleeps (fst (executeRequestWithRetries D cfg C w)))
              = length (backoff_sleeps w) + nat (MaxRetryAttempts cfg)
            \<and> snd (executeRequestWithRetries D cfg C w)
                = (case HandleAPIErrorResponse D (Some x) of
                     Panics \<Rightarrow> Panicked
                   | Returns apiErr \<Rightarrow> Returned (Some x) (Some (APIErr apiErr))))"
proof -
  let ?w1 = "(acquirePermit w)\<lparr>TotalRequests := Suc (TotalRequests w)\<rparr>"
  let ?dl = "now w + TotalRetryDuration cfg"
  from retryLoop_backoffs [of D cfg C ?dl None None 0 ?w1]
  have loop: "length (backoff_sleeps (fst (retryLoop D cfg C ?dl None None 0 ?w1)))
                \<le> length (backoff_sleeps w) + nat (MaxRetryAttempts cfg)"
    by (simp add: permit_frame)
  from executeRequestWithRetries_world [of D cfg C w] loop
  have bound: "length (backoff_sleeps (fst (executeRequestWithRetries D cfg C w)))
     \<le> length (backoff_sleeps w) + nat (MaxRetryAttempts cfg)"
    by (elim disjE) (simp_all add: permit_frame)
  { fix x m
    assume h: "MaxRetryAttempts cfg \<le> retryCount \<and> now v < dl
          \<and> script C (sends v) = Response x
          \<and> \<not> (200 \<le> StatusCode x \<and> StatusCode x < 400)
          \<and> TranslateStatusCode D (Some x) = Returns m
          \<and> \<not> IsNonRetryableStatusCode D x
          \<and> (IsRateLimitError D (Some x) = Returns False
               \<or> (IsRateLimitError D (Some x) = Returns True
                   \<and> parseRateLimitHeaders (Parse_RFC1123 D) x (now (do_send C v)) \<le> 0))
          \<and> IsTransientError D (Some x) = Returns True"
    then have "retryLoop D cfg C dl resp err retryCount v
              = (do_send C v,
                 case HandleAPIErrorResponse D (Some x) of
                   Panics \<Rightarrow> Panicked
                 | Returns apiErr \<Rightarrow> Returned (Some x) (Some (APIErr apiErr)))"
      by (intro retryLoop_at_bound [where m = m]) simp_all
  } note pass = this
  { fix x m L B
    assume h: "auth C = (True, None) \<and> acquire C = None \<and> marshal C = None
          \<and> new_request C = None
          \<and> (\<forall>n. script C n = Response x)
          \<and> \<not> (200 \<le> StatusCode x \<and> StatusCode x < 400)
          \<and> TranslateStatusCode D (Some x) = Returns m
          \<and> \<not> IsNonRetryableStatusCode D x
          \<and> IsRateLimitError D (Some x) = Returns False
          \<and> IsTransientError D (Some x) = Returns True
          \<and> (\<forall>n. int (latency C n) \<le> L) \<and> (\<forall>k. CalculateBackoff D k \<le> B)
          \<and> 1 \<le> L \<and> 0 \<le> B
          \<and> int (nat (MaxRetryAttempts cfg)) * (L + B) < TotalRetryDuration cfg"
    let ?v = "loopStart w"
    let ?L = "retryLoop D cfg C ?dl None None 0 ?v"
    from h have "sends (fst ?L) = sends ?v + nat (MaxRetryAttempts cfg) + 1
       \<and> length (backoff_sleeps (fst ?L))
           = length (backoff_sleeps ?v) + nat (MaxRetryAttempts cfg)
       \<and> snd ?L = (case HandleAPIErrorResponse D (Some x) of
                Panics \<Rightarrow> Panicked
              | Returns apiErr \<Rightarrow> Returned (Some x) (Some (APIErr apiErr)))"
      by (intro retryLoop_transient_run [where m = m and L = L and B = B])
         (simp_all add: loopStart_frame)
    moreover
    from h have "executeRequestWithRetries D cfg C w
        = (ReleaseConcurrencyPermit (fst ?L), snd ?L)"
      by (intro executeRequestWithRetries_loop) simp_all
    ultimately
    have "sends (fst (executeRequestWithRetries D cfg C w))
              = sends w + nat (MaxRetryAttempts cfg) + 1
            \<and> length (backoff_sleeps (fst (executeRequestWithRetries D cfg C w)))
              = length (backoff_sleeps w) + nat (MaxRetryAttempts cfg)
            \<and> snd (executeRequestWithRetries D cfg C w)
                = (case HandleAPIErrorResponse D (Some x) of
                     Panics \<Rightarrow> Panicked
                   | Returns apiErr \<Rightarrow> Returned (Some x) (Some (APIErr apiErr)))"
      by (simp add: release_frame loopStart_frame backoff_sleeps_def)
  } note whole = this
  from bound pass whole show ?thesis
    by blast
qed

text \<open>
  Claim C3 on two calls that allow three retry attempts. A server that answers every send
  with a plain 503: four sends, three backoff sleeps, and the 503 returned as an error.
  A server that answers every send with 503 and the JSON body \<open>null\<close>: four sends, three
  backoff sleeps, and the call crashes in the decoder.
\<close>

theorem retry_attempts_bounded_witness:
  "sends (fst (executeRequestWithRetries example_deps example_config
             (example_call ''GET'' script_always_503) world0)) = 4
   \<and> length (backoff_sleeps (fst (executeRequestWithRetries example_deps example_config
             (example_call ''GET'' script_always_503) world0))) = 3
   \<and> snd (executeRequestWithRetries example_deps example_config
             (example_call ''GET'' script_always_503) world0)
       = Returned (Some (plain_response 503))
           (Some (APIErr \<lparr>ErrStatusCode = 503, ErrType = ''APIError'',
                    Message = ''Non-JSON error response received'', Detail = [], Errors = [],
                    Raw = []\<rparr>))
   \<and> sends (fst (executeRequestWithRetries null_deps example_config
             (example_call ''GET'' (script_null 503)) world0)) = 4
   \<and> length (backoff_sleeps (fst (executeRequestWithRetries null_deps example_config
             (example_call ''GET'' (script_null 503)) world0))) = 3
   \<and> snd (executeRequestWithRetries null_deps example_config
             (example_call ''GET'' (script_null 503)) world0) = Panicked"
proof -
  let ?C = "example_call ''GET'' script_always_503"
  let ?N = "example_call ''GET'' (script_null 503)"
  let ?L = "1000000 :: int"
  let ?B = "5 * Second"
  have w0: "sends world0 = 0" "backoff_sleeps world0 = []"
    by (simp_all add: world0_def backoff_sleeps_def)
  have n: "nat (MaxRetryAttempts example_config) = 3"
    by (simp add: example_config_def)
  have code: "TranslateStatusCode example_deps (Some (plain_response 503)) = Returns ''503''"
    "TranslateStatusCode null_deps (Some (null_response 503)) = Returns ''503''"
    by (simp_all add: example_deps_def null_deps_def spec_TranslateStatusCode_def
        plain_response_def null_response_def body_response_def strconv_Itoa_def
        nat_decimal.simps digit_char_def)
  have cost: "(\<forall>n. int (latency ?C n) \<le> ?L)" "(\<forall>n. int (latency ?N n) \<le> ?L)"
      "(\<forall>k. CalculateBackoff example_deps k \<le> ?B)" "(\<forall>k. CalculateBackoff null_deps k \<le> ?B)"
      "1 \<le> ?L \<and> 0 \<le> ?B"
      "int (nat (MaxRetryAttempts example_config)) * (?L + ?B) < TotalRetryDuration example_config"
    by (simp_all add: example_call_def example_deps_def null_deps_def backoffNoJitter_def
        example_config_def Second_def Minute_def)
  have plain: "auth ?C = (True, None) \<and> acquire ?C = None \<and> marshal ?C = None
          \<and> new_request ?C = None
          \<and> (\<forall>n. script ?C n = Response (plain_response 503))
          \<and> \<not> (200 \<le> StatusCode (plain_response 503) \<and> StatusCode (plain_response 503) < 400)
          \<and> TranslateStatusCode example_deps (Some (plain_response 503)) = Returns ''503''
          \<and> \<not> IsNonRetryableStatusCode example_deps (plain_response 503)
          \<and> IsRateLimitError example_deps (Some (plain_response 503)) = Returns False
          \<and> IsTransientError example_deps (Some (plain_response 503)) = Returns True"
    using code(1)
    by (simp add: example_call_def example_deps_def
        script_always_503_def plain_response_def spec_IsNonRetryableStatusCode_def
        spec_IsRateLimitError_def spec_IsTransientError_def transientStatusCodes_def)
  have null: "auth ?N = (True, None) \<and> acquire ?N = None \<and> marshal ?N = None
          \<and> new_request ?N = None
          \<and> (\<forall>n. script ?N n = Response (null_response 503))
          \<and> \<not> (200 \<le> StatusCode (null_response 503) \<and> StatusCode (null_response 503) < 400)
          \<and> TranslateStatusCode null_deps (Some (null_response 503)) = Returns ''503''
          \<and> \<not> IsNonRetryableStatusCode null_deps (null_response 503)
          \<and> IsRateLimitError null_deps (Some (null_response 503)) = Returns False
          \<and> IsTransientError null_deps (Some (null_response 503)) = Returns True"
    using code(2)
    by (simp add: example_call_def null_deps_def
        example_deps_def script_null_def null_response_def body_response_def
        spec_IsNonRetryableStatusCode_def spec_IsRateLimitError_def spec_IsTransientError_def
        transientStatusCodes_def)
  have dec: "HandleAPIErrorResponse example_deps (Some (plain_response 503)) =
      Returns \<lparr>ErrStatusCode = 503, ErrType = ''APIError'',
                    Message = ''Non-JSON error response received'', Detail = [], Errors = [],
                    Raw = []\<rparr>"
    "HandleAPIErrorResponse null_deps (Some (null_response 503)) = Panics"
    by (simp_all add: HandleAPIErrorResponse_def example_deps_def null_deps_def
        handleAPIErrorResponse_def defaultAPIError_def plain_response_def null_response_def
        body_response_def isJSONResponse_def isHTMLResponse_def Header_Get_def json_null_def)
  from retry_attempts_bounded [of example_deps example_config ?C world0] plain cost
  have "sends (fst (executeRequestWithRetries example_deps example_config ?C world0))
          = sends world0 + nat (MaxRetryAttempts example_config) + 1
      \<and> length (backoff_sleeps (fst (executeRequestWithRetries example_deps example_config ?C world0)))
          = length (backoff_sleeps world0) + nat (MaxRetryAttempts example_config)
      \<and> snd (executeRequestWithRetries example_deps example_config ?C world0)
          = (case HandleAPIErrorResponse example_deps (Some (plain_response 503)) of
               Panics \<Rightarrow> Panicked
             | Returns apiErr \<Rightarrow> Returned (Some (plain_response 503)) (Some (APIErr apiErr)))"
    by blast
  moreover
  from retry_attempts_bounded [of null_deps example_config ?N world0] null cost
  have "sends (fst (executeRequestWithRetries null_deps example_config ?N world0))
          = sends world0 + nat (MaxRetryAttempts example_config) + 1
      \<and> length (backoff_sleeps (fst (executeRequestWithRetries null_deps example_config ?N world0)))
          = length (backoff_sleeps world0) + nat (MaxRetryAttempts example_config)
      \<and> snd (executeRequestWithRetries null_deps example_config ?N world0)
          = (case HandleAPIErrorResponse null_deps (Some (null_response 503)) of
               Panics \<Rightarrow> Panicked
             | Returns apiErr \<Rightarrow> Returned (Some (null_response 503)) (Some (APIErr apiErr)))"
    by blast
  ultimately show ?thesis
    using w0 n dec by simp
qed

lemma executeRequest_world:
  "fst (executeRequest D C w) = w
   \<or> fst (executeRequest D C w) = ReleaseConcurrencyPermit (acquirePermit w)
   \<or> fst (executeRequest D C w) = ReleaseConcurrencyPermit (do_send C (acquirePermit w))
   \<or> fst (executeRequest D C w) =
       ReleaseConcurrencyPermit (EvaluateAndAdjustConcurrency (do_send C (acquirePermit w)))"
  by (auto simp: executeRequest_def requestBody_def Let_def
      split: prod.split option.split send_result.split outcome.split)

text \<open>
  On both paths and every exit a call releases as many permits as it acquired.
\<close>

lemma permits_balanced:
  "permits_released (fst (executeRequest D C w)) - permits_released w
     = permits_acquired (fst (executeRequest D C w)) - permits_acquired w"
  "permits_released (fst (executeRequestWithRetries D cfg C w)) - permits_released w
     = permits_acquired (fst (executeRequestWithRetries D cfg C w)) - permits_acquired w"
proof -
  show "permits_released (fst (executeRequest D C w)) - permits_released w
     = permits_acquired (fst (executeRequest D C w)) - permits_acquired w"
    using executeRequest_world [of D C w]
    by (elim disjE)
      (simp_all add: ReleaseConcurrencyPermit_def acquirePermit_def do_send_def
        EvaluateAndAdjustConcurrency_def)
  let ?w1 = "(acquirePermit w)\<lparr>TotalRequests := Suc (TotalRequests w)\<rparr>"
  note loop = retryLoop_metrics [of D cfg C "now w + TotalRetryDuration cfg" None None 0 ?w1]
  show "permits_released (fst (executeRequestWithRetries D cfg C w)) - permits_released w
     = permits_acquired (fst (executeRequestWithRetries D cfg C w)) - permits_acquired w"
    using executeRequestWithRetries_world [of D cfg C w] loop
    by (elim disjE) (simp_all add: ReleaseConcurrencyPermit_def acquirePermit_def)
qed

text \<open>
  Claim C4: on both paths and every exit the permit is released once, the total-request
  counter is incremented and the controller is given the request's feedback. The permit
  is released, but the metrics are not recorded: the single-shot path never increments
  \<open>TotalRequests\<close>, which only the retry path does, and the retry path never calls
  \<open>EvaluateAndAdjustConcurrency\<close>, which only the single-shot path does.
\<close>

theorem metrics_not_recorded:
  "TotalRequests (fst (executeRequest D C w)) = TotalRequests w
   \<and> evaluations (fst (executeRequestWithRetries D cfg C w)) = evaluations w"
proof
  show "TotalRequests (fst (executeRequest D C w)) = TotalRequests w"
    using executeRequest_world [of D C w]
    by (elim disjE)
      (simp_all add: ReleaseConcurrencyPermit_def acquirePermit_def do_send_def
        EvaluateAndAdjustConcurrency_def)
  let ?w1 = "(acquirePermit w)\<lparr>TotalRequests := Suc (TotalRequests w)\<rparr>"
  note loop = retryLoop_metrics [of D cfg C "now w + TotalRetryDuration cfg" None None 0 ?w1]
  show "evaluations (fst (executeRequestWithRetries D cfg C w)) = evaluations w"
    using executeRequestWithRetries_world [of D cfg C w] loop
    by (elim disjE) (simp_all add: permit_frame)
qed

lemmas request_defs =
  DoRequest_def IsIdempotentHTTPMethod_def IsNonIdempotentHTTPMethod_def
  executeRequest_def requestBody_def EvaluateAndAdjustConcurrency_def

text \<open>Claim C4 on a POST and a GET that are both answered 200.\<close>

theorem metrics_not_recorded_witness:
  "snd (executeRequest example_deps (example_call ''POST'' script_200) world0)
     = Returned (Some (plain_response 200)) None
   \<and> TotalRequests (fst (executeRequest example_deps (example_call ''POST'' script_200) world0)) = 0
   \<and> snd (executeRequestWithRetries example_deps example_config
            (example_call ''GET'' script_200) world0)
     = Returned (Some (plain_response 200)) None
   \<and> evaluations (fst (executeRequestWithRetries example_deps example_config
            (example_call ''GET'' script_200) world0)) = 0"
proof -
  have "snd (executeRequest example_deps (example_call ''POST'' script_200) world0)
     = Returned (Some (plain_response 200)) None"
    by (simp add: request_defs exec_defs script_200_def)
  moreover have "snd (executeRequestWithRetries example_deps example_config
            (example_call ''GET'' script_200) world0)
     = Returned (Some (plain_response 200)) None"
    apply (simp add: exec_defs script_200_def)
    apply (subst retryLoop.simps)
    apply (simp add: exec_defs script_200_def)
    done
  moreover have "TotalRequests world0 = 0" "evaluations world0 = 0"
    by (simp_all add: world0_def)
  ultimately show ?thesis
    using metrics_not_recorded [of example_deps "example_call ''POST'' script_200" world0
        example_config]
      metrics_not_recorded [of example_deps "example_call ''GET'' script_200" world0
        example_config]
    by simp
qed

text \<open>
  Claim C9: a POST or PATCH call makes at most one send, no backoff wait and no
  rate-limit wait, and any answer that is not a success gives the caller an error at
  once. The first part holds of every such call: at most one send, and no sleep of either
  kind. The second does not: when the send is answered with a status outside 200 to 399,
  the call hands the answer to the decoder and returns an error only if the decoder
  returns. On an answer labelled JSON whose body decodes to nil the decoder panics, and
  the call crashes after its one send.
\<close>

theorem non_idempotent_single_send:
  assumes "request_method C = ''POST'' \<or> request_method C = ''PATCH''"
  shows "sends (fst (DoRequest D cfg C w)) \<le> Suc (sends w)
   \<and> sleep_log (fst (DoRequest D cfg C w)) = sleep_log w
   \<and> (\<forall>x. auth C = (True, None) \<and> acquire C = None \<and> marshal C = None
             \<and> new_request C = None
             \<and> script C (sends w) = Response x
             \<and> \<not> (200 \<le> StatusCode x \<and> StatusCode x < 400)
          \<longrightarrow> sends (fst (DoRequest D cfg C w)) = Suc (sends w)
              \<and> snd (DoRequest D cfg C w)
                  = (case HandleAPIErrorResponse D (Some x) of
                       Panics \<Rightarrow> Panicked
                     | Returns apiErr \<Rightarrow> Returned None (Some (APIErr apiErr))))
   \<and> (\<forall>x b. auth C = (True, None) \<and> acquire C = None \<and> marshal C = None
             \<and> new_request C = None
             \<and> script C (sends w) = Response x
             \<and> \<not> (200 \<le> StatusCode x \<and> StatusCode x < 400)
             \<and> Body x = Some b \<and> isJSONResponse x
             \<and> into_APIError (Unmarshal D) b (defaultAPIError x) = DecodedNull
          \<longrightarrow> sends (fst (DoRequest D cfg C w)) = Suc (sends w)
              \<and> snd (DoRequest D cfg C w) = Panicked)"
proof -
  have single: "DoRequest D cfg C w = executeRequest D C w"
    using assms by (auto simp: DoRequest_def IsIdempotentHTTPMethod_def IsNonIdempotentHTTPMethod_def)
  have frame: "sends (fst (executeRequest D C w)) \<le> Suc (sends w)
        \<and> sleep_log (fst (executeRequest D C w)) = sleep_log w"
    using executeRequest_world [of D C w]
    by (elim disjE)
      (simp_all add: ReleaseConcurrencyPermit_def acquirePermit_def do_send_def
        EvaluateAndAdjustConcurrency_def)
  have failed: "sends (fst (executeRequest D C w)) = Suc (sends w)
        \<and> snd (executeRequest D C w)
            = (case HandleAPIErrorResponse D (Some x) of
                 Panics \<Rightarrow> Panicked
               | Returns apiErr \<Rightarrow> Returned None (Some (APIErr apiErr)))"
    if h: "auth C = (True, None) \<and> acquire C = None \<and> marshal C = None
             \<and> new_request C = None
             \<and> script C (sends w) = Response x
             \<and> \<not> (200 \<le> StatusCode x \<and> StatusCode x < 400)" for x
  proof -
    from h have scr: "script C (sends (acquirePermit w)) = Response x"
      by (simp add: acquirePermit_def)
    from h scr show ?thesis
      by (simp add: executeRequest_def requestBody_def Let_def ReleaseConcurrencyPermit_def
          EvaluateAndAdjustConcurrency_def do_send_def acquirePermit_def
          split: outcome.split)
  qed
  have crash: "sends (fst (executeRequest D C w)) = Suc (sends w)
        \<and> snd (executeRequest D C w) = Panicked"
    if h: "auth C = (True, None) \<and> acquire C = None \<and> marshal C = None
             \<and> new_request C = None
             \<and> script C (sends w) = Response x
             \<and> \<not> (200 \<le> StatusCode x \<and> StatusCode x < 400)
             \<and> Body x = Some b \<and> isJSONResponse x
             \<and> into_APIError (Unmarshal D) b (defaultAPIError x) = DecodedNull" for x b
  proof -
    from h have "HandleAPIErrorResponse D (Some x) = Panics"
      by (simp add: HandleAPIErrorResponse_def handleAPIErrorResponse_def)
    with failed [of x] h show ?thesis
      by simp
  qed
  from frame failed crash show ?thesis
    unfolding single by blast
qed

text \<open>
  Claim C9 on two POST calls. Answered with a plain 503: one send, no sleep, the
  decoder's error. Answered with 500 and the JSON body \<open>null\<close>: one send, no sleep, and
  the call crashes in the decoder.
\<close>

theorem non_idempotent_single_send_witness:
  "sends (fst (DoRequest example_deps example_config
                 (example_call ''POST'' script_always_503) world0)) = 1
   \<and> sleep_log (fst (DoRequest example_deps example_config
                 (example_call ''POST'' script_always_503) world0)) = []
   \<and> snd (DoRequest example_deps example_config
             (example_call ''POST'' script_always_503) world0)
       = Returned None (Some (APIErr
           \<lparr>ErrStatusCode = 503, ErrType = ''APIError'',
            Message = ''Non-JSON error response received'', Detail = [], Errors = [], Raw = []\<rparr>))
   \<and> sends (fst (DoRequest null_deps example_config
                 (example_call ''POST'' (script_null 500)) world0)) = 1
   \<and> sleep_log (fst (DoRequest null_deps example_config
                 (example_call ''POST'' (script_null 500)) world0)) = []
   \<and> snd (DoRequest null_deps example_config
             (example_call ''POST'' (script_null 500)) world0) = Panicked"
proof -
  let ?C = "example_call ''POST'' script_always_503"
  let ?N = "example_call ''POST'' (script_null 500)"
  let ?a = "\<lparr>ErrStatusCode = 503, ErrType = ''APIError'',
            Message = ''Non-JSON error response received'', Detail = [], Errors = [], Raw = []\<rparr>"
  note plain = non_idempotent_single_send [of ?C example_deps example_config world0]
  note null = non_idempotent_single_send [of ?N null_deps example_config world0]
  have m: "request_method ?C = ''POST'' \<or> request_method ?C = ''PATCH''"
    "request_method ?N = ''POST'' \<or> request_method ?N = ''PATCH''"
    by (simp_all add: example_call_def)
  have w0: "sends world0 = 0" "sleep_log world0 = []"
    by (simp_all add: world0_def)
  have hp: "auth ?C = (True, None) \<and> acquire ?C = None \<and> marshal ?C = None
      \<and> new_request ?C = None
      \<and> script ?C (sends world0) = Response (plain_response 503)
      \<and> \<not> (200 \<le> StatusCode (plain_response 503) \<and> StatusCode (plain_response 503) < 400)"
    by (simp add: example_call_def script_always_503_def plain_response_def)
  have dec: "HandleAPIErrorResponse example_deps (Some (plain_response 503)) = Returns ?a"
    by (simp add: plain_response_def
        HandleAPIErrorResponse_def example_deps_def handleAPIErrorResponse_def
        defaultAPIError_def isJSONResponse_def isHTMLResponse_def Header_Get_def)
  have hn: "auth ?N = (True, None) \<and> acquire ?N = None \<and> marshal ?N = None
      \<and> new_request ?N = None
      \<and> script ?N (sends world0) = Response (null_response 500)
      \<and> \<not> (200 \<le> StatusCode (null_response 500) \<and> StatusCode (null_response 500) < 400)
      \<and> Body (null_response 500) = Some ''null'' \<and> isJSONResponse (null_response 500)
      \<and> into_APIError (Unmarshal null_deps) ''null'' (defaultAPIError (null_response 500))
          = DecodedNull"
    by (simp add: example_call_def script_null_def null_response_def body_response_def
        isJSONResponse_def Header_Get_def null_deps_def json_null_def)
  from plain [OF m(1)] hp
  have "sends (fst (DoRequest example_deps example_config ?C world0)) = Suc (sends world0)
      \<and> sleep_log (fst (DoRequest example_deps example_config ?C world0)) = sleep_log world0
      \<and> snd (DoRequest example_deps example_config ?C world0)
          = (case HandleAPIErrorResponse example_deps (Some (plain_response 503)) of
               Panics \<Rightarrow> Panicked
             | Returns apiErr \<Rightarrow> Returned None (Some (APIErr apiErr)))"
    by blast
  moreover
  from null [OF m(2)] hn
  have "sends (fst (DoRequest null_deps example_config ?N world0)) = Suc (sends world0)
      \<and> sleep_log (fst (DoRequest null_deps example_config ?N world0)) = sleep_log world0
      \<and> snd (DoRequest null_deps example_config ?N world0) = Panicked"
    by blast
  ultimately show ?thesis
    using w0 dec by simp
qed

end
